theory Spec2Isabelle
  imports Main "HOL-Library.Word"
begin

section \<open>Machine data\<close>

text \<open>
  The wrapper is C++ for 32-bit Windows. An \<open>int\<close> is a 32-bit two's complement word, read
  with \<open>sint\<close>; a \<open>float\<close> is an IEEE-754 binary32 bit pattern. A \<open>char\<close> buffer is the list
  of its bytes; the C string it holds ends before the first NUL byte.
\<close>

type_synonym int32 = "32 word"

datatype float = Float "32 word"

definition NUL :: char where
  "NUL = CHR 0x00"

definition CR :: char where
  "CR = CHR 0x0D"

definition QUOTE :: char where
  "QUOTE = CHR 0x27"

text \<open>The macros of MCLS1_Api.cpp, lines 6 to 9; 20.0f and 30.0f as bit patterns.\<close>

definition MAXLEN :: nat where
  "MAXLEN = 255"

definition WRITE_BUFFER_SIZE :: nat where
  "WRITE_BUFFER_SIZE = 32"

definition TEMP_HI :: float where
  "TEMP_HI = Float 0x41F00000"

definition TEMP_LO :: float where
  "TEMP_LO = Float 0x41A00000"

text \<open>The baud-rate macro of Windows.h that \<open>fnMCLS1_DLL_Open\<close> passes on.\<close>

definition CBR_115200 :: int32 where
  "CBR_115200 = 115200"

subsection \<open>Floats: fields, order\<close>

fun f_sign :: "float \<Rightarrow> bool" where
  "f_sign (Float w) = bit w 31"

fun f_exp :: "float \<Rightarrow> nat" where
  "f_exp (Float w) = unat (take_bit 8 (drop_bit 23 w))"

fun f_man :: "float \<Rightarrow> nat" where
  "f_man (Float w) = unat (take_bit 23 w)"

definition is_nan :: "float \<Rightarrow> bool" where
  "is_nan f = (f_exp f = 255 \<and> f_man f \<noteq> 0)"

definition is_inf :: "float \<Rightarrow> bool" where
  "is_inf f = (f_exp f = 255 \<and> f_man f = 0)"

text \<open>
  The magnitude of a float that is not a NaN, in units of \<open>2 ^ -149\<close> (the smallest
  subnormal), so that it is a natural number: \<open>|x| = f_mag x / 2 ^ 149\<close>. An infinity gets
  \<open>2 ^ 277\<close>, above every finite magnitude, so one formula orders all of them.
\<close>

definition f_mag :: "float \<Rightarrow> nat" where
  "f_mag f = (if f_exp f = 0 then f_man f else (2 ^ 23 + f_man f) * 2 ^ (f_exp f - 1))"

definition f_key :: "float \<Rightarrow> int" where
  "f_key f = (if f_sign f then - int (f_mag f) else int (f_mag f))"

text \<open>The comparison \<open>a <= b\<close> of C: false as soon as one side is a NaN.\<close>

definition f_le :: "float \<Rightarrow> float \<Rightarrow> bool" where
  "f_le a b = (\<not> is_nan a \<and> \<not> is_nan b \<and> f_key a \<le> f_key b)"

section \<open>The C runtime's formatting: \<open>sprintf_s\<close>\<close>

definition digit_char :: "nat \<Rightarrow> char" where
  "digit_char d = ''0123456789'' ! d"

fun dec_nat :: "nat \<Rightarrow> string" where
  "dec_nat n = (if n < 10 then [digit_char n] else dec_nat (n div 10) @ [digit_char (n mod 10)])"

declare dec_nat.simps [simp del]

text \<open>The conversion \<open>%d\<close>.\<close>

definition fmt_d :: "int32 \<Rightarrow> string" where
  "fmt_d n = (if sint n < 0 then CHR ''-'' # dec_nat (nat (- sint n)) else dec_nat (nat (sint n)))"

text \<open>
  The conversion \<open>%f\<close>: the exact value rounded to six decimals, ties to even (the runtime's
  default rounding mode). \<open>round_half_even a b\<close> is the integer nearest to \<open>a / b\<close>. The
  argument is promoted to \<open>double\<close> on the way, which changes no value. Infinities and NaNs
  print as C99 spells them.
\<close>

definition round_half_even :: "nat \<Rightarrow> nat \<Rightarrow> nat" where
  "round_half_even a b =
     (let q = a div b; r = a mod b
      in if 2 * r < b then q else if b < 2 * r then q + 1 else if even q then q else q + 1)"

definition pad6 :: "nat \<Rightarrow> string" where
  "pad6 n = replicate (6 - length (dec_nat n)) (CHR ''0'') @ dec_nat n"

definition fmt_f :: "float \<Rightarrow> string" where
  "fmt_f f =
     (if f_sign f then ''-'' else '''') @
     (if is_nan f then ''nan''
      else if is_inf f then ''inf''
      else (let q = round_half_even (f_mag f * 10 ^ 6) (2 ^ 149)
            in dec_nat (q div 10 ^ 6) @ ''.'' @ pad6 (q mod 10 ^ 6)))"

datatype arg = AInt int32 | AFloat float

fun conv :: "char \<Rightarrow> arg \<Rightarrow> string option" where
  "conv k (AInt n) = (if k = CHR ''d'' then Some (fmt_d n) else None)"
| "conv k (AFloat x) = (if k = CHR ''f'' then Some (fmt_f x) else None)"

text \<open>
  The text a format string expands to. The source uses \<open>%d\<close> and \<open>%f\<close> only; any other
  conversion, or one without its argument, has no expansion here.
\<close>

fun sformat :: "string \<Rightarrow> arg list \<Rightarrow> string option" where
  "sformat [] args = Some []"
| "sformat (c # cs) args =
     (if c = CHR ''%'' then
        (case cs of
           [] \<Rightarrow> None
         | k # rest \<Rightarrow>
             (case args of
                [] \<Rightarrow> None
              | a # more \<Rightarrow>
                  (case conv k a of
                     None \<Rightarrow> None
                   | Some s \<Rightarrow> map_option ((@) s) (sformat rest more))))
      else map_option ((#) c) (sformat cs args))"

text \<open>
  What stops a call before it returns: a failed \<open>assert\<close>, the invalid-parameter handler
  of the secure C runtime (no handler is installed, so the default one ends the program),
  a call through a function pointer that is still NULL, an exception nobody catches.
\<close>

datatype error = AssertionFailed | InvalidParameter | NullCall | UncaughtException

definition and_then :: "error + 'a \<Rightarrow> ('a \<Rightarrow> error + 'b) \<Rightarrow> error + 'b" where
  "and_then m k = (case m of Inl e \<Rightarrow> Inl e | Inr x \<Rightarrow> k x)"

definition assert_c :: "bool \<Rightarrow> error + unit" where
  "assert_c b = (if b then Inr () else Inl AssertionFailed)"

text \<open>
  \<open>sprintf_s buf sz fmt args\<close>: the text and its terminating NUL are written at the start
  of \<open>buf\<close> when both fit into \<open>sz\<close> bytes; otherwise the invalid-parameter handler runs.
  The bytes behind the NUL stay as they were, as the release runtime leaves them (the debug
  runtime overwrites them with a fill pattern; the C string in the buffer is the same).
\<close>

definition sprintf_s :: "char list \<Rightarrow> nat \<Rightarrow> string \<Rightarrow> arg list \<Rightarrow> error + char list" where
  "sprintf_s buf sz fmt args =
     (case sformat fmt args of
        None \<Rightarrow> Inl InvalidParameter
      | Some s \<Rightarrow>
          if length s < sz then Inr (s @ NUL # drop (length s + 1) buf)
          else Inl InvalidParameter)"

section \<open>The C runtime's scanning: \<open>sscanf_s\<close>\<close>

text \<open>
  A format is a list of directives: an ordinary character, which the input must show; white
  space, which skips any white space of the input; and a scanset \<open>%[...]\<close> or \<open>%[^...]\<close>,
  kept as its ranges of characters (a single character is the range from itself to
  itself). No other conversion occurs in the source; the format ends at one.
\<close>

datatype directive = Lit char | Space | Scanset bool "(char \<times> char) list"

definition isspace :: "char \<Rightarrow> bool" where
  "isspace c = (c = CHR '' '' \<or> (9 \<le> (of_char c :: nat) \<and> (of_char c :: nat) \<le> 13))"

text \<open>The first argument is what is collected of a scanset still open, if one is.\<close>

fun parse_fmt :: "(bool \<times> (char \<times> char) list) option \<Rightarrow> string \<Rightarrow> directive list" where
  "parse_fmt p [] = []"
| "parse_fmt None (c # cs) =
     (if isspace c then Space # parse_fmt None cs
      else if c = CHR ''%'' then
        (case cs of
           [] \<Rightarrow> []
         | k # r \<Rightarrow>
             if k = CHR ''['' then
               (case r of
                  [] \<Rightarrow> []
                | h # r' \<Rightarrow>
                    if h = CHR ''^'' then parse_fmt (Some (True, [])) r'
                    else parse_fmt (Some (False, [])) r)
             else [])
      else Lit c # parse_fmt None cs)"
| "parse_fmt (Some (neg, rs)) (a # cs) =
     (if a = CHR '']'' then Scanset neg rs # parse_fmt None cs
      else
        (case cs of
           d # b # rest \<Rightarrow>
             if d = CHR ''-'' \<and> b \<noteq> CHR '']'' then parse_fmt (Some (neg, rs @ [(a, b)])) rest
             else parse_fmt (Some (neg, rs @ [(a, a)])) cs
         | _ \<Rightarrow> parse_fmt (Some (neg, rs @ [(a, a)])) cs))"

definition in_scanset :: "bool \<Rightarrow> (char \<times> char) list \<Rightarrow> char \<Rightarrow> bool" where
  "in_scanset neg rs c =
     (neg \<noteq> list_ex (\<lambda>(a, b). (of_char a :: nat) \<le> of_char c \<and> (of_char c :: nat) \<le> of_char b) rs)"

text \<open>
  Storing the characters a scanset matched into a buffer declared \<open>sz\<close> bytes long: the
  characters and a NUL when they fit, and the bytes behind them stay as they were. When
  they do not fit the secure runtime leaves an empty string (a case no reply reaches that
  the vendor library has kept inside the 255 bytes of the response buffer). The result
  lists the bytes from the buffer's address on: where it is longer than the buffer, the
  call has written behind the buffer's end.
\<close>

definition store_str :: "char list \<Rightarrow> nat \<Rightarrow> string \<Rightarrow> char list" where
  "store_str buf sz m =
     (if length m < sz then m @ NUL # drop (length m + 1) buf else NUL # drop 1 buf)"

text \<open>
  Every call of the source has one conversion with one buffer and its declared size, so
  the scan carries one destination and ends at the conversion. A directive that fails
  ends the scan with the buffer untouched.
\<close>

fun scan :: "directive list \<Rightarrow> string \<Rightarrow> char list \<Rightarrow> nat \<Rightarrow> char list" where
  "scan [] inp buf sz = buf"
| "scan (Lit c # ds) inp buf sz =
     (case inp of [] \<Rightarrow> buf | x # xs \<Rightarrow> if x = c then scan ds xs buf sz else buf)"
| "scan (Space # ds) inp buf sz = scan ds (dropWhile isspace inp) buf sz"
| "scan (Scanset neg rs # ds) inp buf sz =
     (let m = takeWhile (in_scanset neg rs) inp
      in if m = [] then buf else store_str buf sz m)"

definition cstr :: "char list \<Rightarrow> string" where
  "cstr buf = takeWhile (\<lambda>c. c \<noteq> NUL) buf"

definition sscanf_s :: "char list \<Rightarrow> string \<Rightarrow> char list \<Rightarrow> nat \<Rightarrow> char list" where
  "sscanf_s inp fmt buf sz = scan (parse_fmt None fmt) (cstr inp) buf sz"

section \<open>The vendor library and the wrapper's function pointers\<close>

text \<open>
  The vendor's UART library is closed: a call of one of its functions is an event, the
  name of the export called with its arguments, and the library answers an event, after
  the events before it, with a status and with the bytes it writes into the buffer it was
  given (\<open>list\<close> and \<open>get\<close> do; the other answers' bytes are not looked at).
\<close>

datatype vcall =
    OpenArgs string int32 int32
  | ListArgs "char list" int32
  | CloseArgs int32
  | SetArgs int32 "char list" int32
  | GetArgs int32 "char list" "char list"

type_synonym event = "string \<times> vcall"

type_synonym vendor = "event list \<Rightarrow> event \<Rightarrow> int32 \<times> char list"

text \<open>
  The five global function pointers \<open>open\<close>, \<open>list\<close>, \<open>close\<close>, \<open>set\<close>, \<open>get\<close> of
  MCLS1_Api.cpp: NULL, or the export of that name; with them, the calls made so far.
\<close>

record state =
  open_ptr :: "string option"
  list_ptr :: "string option"
  close_ptr :: "string option"
  set_ptr :: "string option"
  get_ptr :: "string option"
  trace :: "event list"

definition initial_state :: state where
  "initial_state =
     \<lparr>open_ptr = None, list_ptr = None, close_ptr = None, set_ptr = None, get_ptr = None,
      trace = []\<rparr>"

definition call_ptr ::
  "vendor \<Rightarrow> string option \<Rightarrow> vcall \<Rightarrow> state \<Rightarrow> error + (int32 \<times> char list \<times> state)" where
  "call_ptr V p a st =
     (case p of
        None \<Rightarrow> Inl NullCall
      | Some f \<Rightarrow>
          (let (ret, out) = V (trace st) (f, a)
           in Inr (ret, out, st\<lparr>trace := trace st @ [(f, a)]\<rparr>)))"

text \<open>The bytes a callee writes at the start of a buffer.\<close>

definition poke :: "char list \<Rightarrow> char list \<Rightarrow> char list" where
  "poke buf out = out @ drop (length out) buf"

text \<open>A buffer initialised from a string literal: the string, then NUL bytes.\<close>

definition char_array :: "nat \<Rightarrow> string \<Rightarrow> char list" where
  "char_array n s = s @ replicate (n - length s) NUL"

subsection \<open>\<open>init_MCLS1\<close>\<close>

text \<open>
  \<open>LoadLibrary\<close> gives the module, here the list of the names it exports, or fails;
  \<open>GetProcAddress\<close> gives an export's address, here its name, or NULL. \<open>UART_WIN32\<close> is
  defined, so the 32-bit library's path is the one loaded.
\<close>

type_synonym loader = "string \<Rightarrow> string list option"

definition dll_path :: string where
  "dll_path = ''C:/Users/jost/Desktop/SourceLaser/uart_library_win32.dll''"

definition GetProcAddress :: "string list \<Rightarrow> string \<Rightarrow> string option" where
  "GetProcAddress dll_handle name = (if name \<in> set dll_handle then Some name else None)"

definition init_MCLS1 :: "loader \<Rightarrow> state \<Rightarrow> int32 \<times> state" where
  "init_MCLS1 LoadLibrary st =
     (case LoadLibrary dll_path of
        None \<Rightarrow> (- 1, st)
      | Some dll_handle \<Rightarrow>
          (let st' = st\<lparr>open_ptr := GetProcAddress dll_handle ''fnUART_LIBRARY_open'',
                         list_ptr := GetProcAddress dll_handle ''fnUART_LIBRARY_list'',
                         close_ptr := GetProcAddress dll_handle ''fnUART_LIBRARY_close'',
                         set_ptr := GetProcAddress dll_handle ''fnUART_LIBRARY_Set'',
                         get_ptr := GetProcAddress dll_handle ''fnUART_LIBRARY_Get''\<rparr>
           in if open_ptr st' = None \<or> list_ptr st' = None \<or> close_ptr st' = None
                 \<or> set_ptr st' = None \<or> get_ptr st' = None
              then (- 2, st') else (0, st')))"

section \<open>The wrapper: MCLS1_Api.cpp\<close>

text \<open>
  Each function takes the vendor library and the state and gives back what it returns
  with the state after it, or what stopped it. An output parameter \<open>char *\<close> is the bytes at
  that address going in and the bytes there coming out.
\<close>

definition fnMCLS1_DLL_List ::
  "vendor \<Rightarrow> char list \<Rightarrow> int32 \<Rightarrow> state \<Rightarrow> error + (int32 \<times> char list \<times> state)" where
  "fnMCLS1_DLL_List V port var st =
     (let temp = replicate MAXLEN NUL
      in and_then (call_ptr V (list_ptr st) (ListArgs temp (of_nat MAXLEN)) st)
           (\<lambda>(ret, out, st'). Inr (ret, sscanf_s (poke temp out) ''%[^,]'' port MAXLEN, st')))"

definition fnMCLS1_DLL_Open :: "vendor \<Rightarrow> string \<Rightarrow> state \<Rightarrow> error + (int32 \<times> state)" where
  "fnMCLS1_DLL_Open V port st =
     and_then (call_ptr V (open_ptr st) (OpenArgs port CBR_115200 3) st)
       (\<lambda>(hdl, out, st'). Inr (hdl, st'))"

definition fnMCLS1_DLL_Close :: "vendor \<Rightarrow> int32 \<Rightarrow> state \<Rightarrow> error + (int32 \<times> state)" where
  "fnMCLS1_DLL_Close V hdl st =
     and_then (call_ptr V (close_ptr st) (CloseArgs hdl) st)
       (\<lambda>(ret, out, st'). Inr (ret, st'))"

subsection \<open>Setters\<close>

definition fnMCLS1_DLL_SetActiveChannel :: "vendor \<Rightarrow> int32 \<Rightarrow> int32 \<Rightarrow> state \<Rightarrow> error + (int32 \<times> state)" where
  "fnMCLS1_DLL_SetActiveChannel V hdl n st =
     and_then (assert_c (1 \<le> sint n \<and> sint n \<le> 4)) (\<lambda>_.
     and_then (sprintf_s (replicate WRITE_BUFFER_SIZE NUL) WRITE_BUFFER_SIZE
                 (''channel=%d'' @ [CR]) [AInt n]) (\<lambda>cmd.
     and_then (call_ptr V (set_ptr st) (SetArgs hdl cmd (of_nat WRITE_BUFFER_SIZE)) st)
       (\<lambda>(ret, out, st'). Inr (ret, st'))))"

definition fnMCLS1_DLL_SetTargeTemperature :: "vendor \<Rightarrow> int32 \<Rightarrow> float \<Rightarrow> state \<Rightarrow> error + (int32 \<times> state)" where
  "fnMCLS1_DLL_SetTargeTemperature V hdl n st =
     and_then (assert_c (f_le TEMP_LO n \<and> f_le n TEMP_HI)) (\<lambda>_.
     and_then (sprintf_s (replicate WRITE_BUFFER_SIZE NUL) WRITE_BUFFER_SIZE
                 (''target=%f'' @ [CR]) [AFloat n]) (\<lambda>cmd.
     and_then (call_ptr V (set_ptr st) (SetArgs hdl cmd (of_nat WRITE_BUFFER_SIZE)) st)
       (\<lambda>(ret, out, st'). Inr (ret, st'))))"

definition fnMCLS1_DLL_SetCurrent :: "vendor \<Rightarrow> int32 \<Rightarrow> float \<Rightarrow> state \<Rightarrow> error + (int32 \<times> state)" where
  "fnMCLS1_DLL_SetCurrent V hdl n st =
     and_then (sprintf_s (replicate WRITE_BUFFER_SIZE NUL) WRITE_BUFFER_SIZE
                 (''current=%f'' @ [CR]) [AFloat n]) (\<lambda>cmd.
     and_then (call_ptr V (set_ptr st) (SetArgs hdl cmd (of_nat WRITE_BUFFER_SIZE)) st)
       (\<lambda>(ret, out, st'). Inr (ret, st')))"

definition fnMCLS1_DLL_SetEnable :: "vendor \<Rightarrow> int32 \<Rightarrow> int32 \<Rightarrow> state \<Rightarrow> error + (int32 \<times> state)" where
  "fnMCLS1_DLL_SetEnable V hdl n st =
     and_then (assert_c (0 \<le> sint n \<and> sint n \<le> 1)) (\<lambda>_.
     and_then (sprintf_s (replicate WRITE_BUFFER_SIZE NUL) WRITE_BUFFER_SIZE
                 (''enable=%d'' @ [CR]) [AInt n]) (\<lambda>cmd.
     and_then (call_ptr V (set_ptr st) (SetArgs hdl cmd (of_nat WRITE_BUFFER_SIZE)) st)
       (\<lambda>(ret, out, st'). Inr (ret, st'))))"

definition fnMCLS1_DLL_SetSystemEnable :: "vendor \<Rightarrow> int32 \<Rightarrow> int32 \<Rightarrow> state \<Rightarrow> error + (int32 \<times> state)" where
  "fnMCLS1_DLL_SetSystemEnable V hdl n st =
     and_then (assert_c (0 \<le> sint n \<and> sint n \<le> 1)) (\<lambda>_.
     and_then (sprintf_s (replicate WRITE_BUFFER_SIZE NUL) WRITE_BUFFER_SIZE
                 (''system=%d'' @ [CR]) [AInt n]) (\<lambda>cmd.
     and_then (call_ptr V (set_ptr st) (SetArgs hdl cmd (of_nat WRITE_BUFFER_SIZE)) st)
       (\<lambda>(ret, out, st'). Inr (ret, st'))))"

subsection \<open>Getters\<close>

definition fnMCLS1_DLL_GetActiveChannel ::
  "vendor \<Rightarrow> int32 \<Rightarrow> char list \<Rightarrow> int32 \<Rightarrow> state \<Rightarrow> error + (int32 \<times> char list \<times> state)" where
  "fnMCLS1_DLL_GetActiveChannel V hdl c limit st =
     (let cmd = char_array WRITE_BUFFER_SIZE (''channel?'' @ [CR]);
          temp = replicate MAXLEN NUL
      in and_then (call_ptr V (get_ptr st) (GetArgs hdl cmd temp) st)
           (\<lambda>(ret, out, st').
              Inr (ret, sscanf_s (poke temp out) (''channel?'' @ [CR] @ ''%[0-9]'') c MAXLEN, st')))"

definition fnMCLS1_DLL_GetTargetTemperature ::
  "vendor \<Rightarrow> int32 \<Rightarrow> char list \<Rightarrow> int32 \<Rightarrow> state \<Rightarrow> error + (int32 \<times> char list \<times> state)" where
  "fnMCLS1_DLL_GetTargetTemperature V hdl c limit st =
     (let cmd = char_array WRITE_BUFFER_SIZE (''target?'' @ [CR]);
          temp = replicate MAXLEN NUL
      in and_then (call_ptr V (get_ptr st) (GetArgs hdl cmd temp) st)
           (\<lambda>(ret, out, st').
              Inr (ret, sscanf_s (poke temp out) (''target?'' @ [CR] @ ''%[0-9'' @ [QUOTE] @ ''.'' @ [QUOTE] @ '']'') c MAXLEN, st')))"

definition fnMCLS1_DLL_GetActualTemperature ::
  "vendor \<Rightarrow> int32 \<Rightarrow> char list \<Rightarrow> int32 \<Rightarrow> state \<Rightarrow> error + (int32 \<times> char list \<times> state)" where
  "fnMCLS1_DLL_GetActualTemperature V hdl c limit st =
     (let cmd = char_array WRITE_BUFFER_SIZE (''temp?'' @ [CR]);
          temp = replicate MAXLEN NUL
      in and_then (call_ptr V (get_ptr st) (GetArgs hdl cmd temp) st)
           (\<lambda>(ret, out, st').
              Inr (ret, sscanf_s (poke temp out) (''temp?'' @ [CR] @ ''%[0-9'' @ [QUOTE] @ ''.'' @ [QUOTE] @ '']'') c MAXLEN, st')))"

definition fnMCLS1_DLL_GetActualCurrent ::
  "vendor \<Rightarrow> int32 \<Rightarrow> char list \<Rightarrow> int32 \<Rightarrow> state \<Rightarrow> error + (int32 \<times> char list \<times> state)" where
  "fnMCLS1_DLL_GetActualCurrent V hdl c limit st =
     (let cmd = char_array WRITE_BUFFER_SIZE (''current?'' @ [CR]);
          temp = replicate MAXLEN NUL
      in and_then (call_ptr V (get_ptr st) (GetArgs hdl cmd temp) st)
           (\<lambda>(ret, out, st').
              Inr (ret, sscanf_s (poke temp out) (''current?'' @ [CR] @ ''%[0-9'' @ [QUOTE] @ ''.'' @ [QUOTE] @ '']'') c MAXLEN, st')))"

definition fnMCLS1_DLL_GetActualPower ::
  "vendor \<Rightarrow> int32 \<Rightarrow> char list \<Rightarrow> int32 \<Rightarrow> state \<Rightarrow> error + (int32 \<times> char list \<times> state)" where
  "fnMCLS1_DLL_GetActualPower V hdl c limit st =
     (let cmd = char_array WRITE_BUFFER_SIZE (''power?'' @ [CR]);
          temp = replicate MAXLEN NUL
      in and_then (call_ptr V (get_ptr st) (GetArgs hdl cmd temp) st)
           (\<lambda>(ret, out, st').
              Inr (ret, sscanf_s (poke temp out) (''power?'' @ [CR] @ ''%[0-9'' @ [QUOTE] @ ''.'' @ [QUOTE] @ '']'') c MAXLEN, st')))"

definition fnMCLS1_DLL_GetSystemEnable ::
  "vendor \<Rightarrow> int32 \<Rightarrow> char list \<Rightarrow> int32 \<Rightarrow> state \<Rightarrow> error + (int32 \<times> char list \<times> state)" where
  "fnMCLS1_DLL_GetSystemEnable V hdl c limit st =
     (let cmd = char_array WRITE_BUFFER_SIZE (''system?'' @ [CR]);
          temp = replicate MAXLEN NUL
      in and_then (call_ptr V (get_ptr st) (GetArgs hdl cmd temp) st)
           (\<lambda>(ret, out, st').
              Inr (ret, sscanf_s (poke temp out) (''system?'' @ [CR] @ ''%[0-9]'') c MAXLEN, st')))"

definition fnMCLS1_DLL_GetEnable ::
  "vendor \<Rightarrow> int32 \<Rightarrow> char list \<Rightarrow> int32 \<Rightarrow> state \<Rightarrow> error + (int32 \<times> char list \<times> state)" where
  "fnMCLS1_DLL_GetEnable V hdl c limit st =
     (let cmd = char_array WRITE_BUFFER_SIZE (''enable?'' @ [CR]);
          temp = replicate MAXLEN NUL
      in and_then (call_ptr V (get_ptr st) (GetArgs hdl cmd temp) st)
           (\<lambda>(ret, out, st').
              Inr (ret, sscanf_s (poke temp out) (''enable?'' @ [CR] @ ''%[0-9]'') c MAXLEN, st')))"

definition fnMCLS1_DLL_GetStatus ::
  "vendor \<Rightarrow> int32 \<Rightarrow> char list \<Rightarrow> int32 \<Rightarrow> state \<Rightarrow> error + (int32 \<times> char list \<times> state)" where
  "fnMCLS1_DLL_GetStatus V hdl c limit st =
     (let cmd = char_array WRITE_BUFFER_SIZE (''statword?'' @ [CR]);
          temp = replicate MAXLEN NUL
      in and_then (call_ptr V (get_ptr st) (GetArgs hdl cmd temp) st)
           (\<lambda>(ret, out, st').
              Inr (ret, sscanf_s (poke temp out) (''statword?'' @ [CR] @ ''%[0-9]'') c MAXLEN, st')))"

definition fnMCLS1_DLL_GetID ::
  "vendor \<Rightarrow> int32 \<Rightarrow> char list \<Rightarrow> int32 \<Rightarrow> state \<Rightarrow> error + (int32 \<times> char list \<times> state)" where
  "fnMCLS1_DLL_GetID V hdl c limit st =
     (let cmd = char_array WRITE_BUFFER_SIZE (''id?'' @ [CR]);
          temp = replicate MAXLEN NUL
      in and_then (call_ptr V (get_ptr st) (GetArgs hdl cmd temp) st)
           (\<lambda>(ret, out, st').
              Inr (ret, sscanf_s (poke temp out) (''id?'' @ [CR] @ ''%[0-9a-zA-Z .]'') c MAXLEN, st')))"

section \<open>The console demo: JOST_MCLS1.cpp\<close>

text \<open>What the demo prints on the console is left out: no call depends on it.\<close>

definition SetChannel :: "vendor \<Rightarrow> int32 \<Rightarrow> int32 \<Rightarrow> state \<Rightarrow> error + (int32 \<times> state)" where
  "SetChannel V hdl channel st =
     and_then (fnMCLS1_DLL_SetActiveChannel V hdl channel st)
       (\<lambda>(ret, st'). fnMCLS1_DLL_SetEnable V hdl 1 st')"

definition SetCurrent :: "vendor \<Rightarrow> int32 \<Rightarrow> float \<Rightarrow> state \<Rightarrow> error + (int32 \<times> state)" where
  "SetCurrent V hdl current st =
     and_then (fnMCLS1_DLL_SetCurrent V hdl current st)
       (\<lambda>(ret, st'). fnMCLS1_DLL_SetCurrent V hdl current st')"

text \<open>
  \<open>std::stof\<close> throws \<open>std::invalid_argument\<close> when the string does not start, after white
  space and a sign, with a number (a digit, a point and a digit, or an infinity or a NaN
  in letters), and \<open>std::out_of_range\<close> when the number is no \<open>float\<close>. Which float a
  number is read as is the runtime's \<open>strtof\<close>, a parameter: \<open>None\<close> when out of range.
\<close>

definition is_digit :: "char \<Rightarrow> bool" where
  "is_digit c = (48 \<le> (of_char c :: nat) \<and> (of_char c :: nat) \<le> 57)"

definition starts_ci :: "string \<Rightarrow> string \<Rightarrow> string \<Rightarrow> bool" where
  "starts_ci s lo up =
     (length lo \<le> length s \<and> list_all (\<lambda>(c, l, u). c = l \<or> c = u) (zip s (zip lo up)))"

definition stof_accepts :: "string \<Rightarrow> bool" where
  "stof_accepts s =
     (let t = dropWhile isspace s;
          u = (case t of [] \<Rightarrow> [] | c # r \<Rightarrow> if c = CHR ''+'' \<or> c = CHR ''-'' then r else t)
      in (case u of
            [] \<Rightarrow> False
          | c # r \<Rightarrow>
              is_digit c
              \<or> (c = CHR ''.'' \<and> (case r of [] \<Rightarrow> False | d # r' \<Rightarrow> is_digit d))
              \<or> starts_ci u ''inf'' ''INF'' \<or> starts_ci u ''nan'' ''NAN''))"

definition stof :: "(string \<Rightarrow> float option) \<Rightarrow> string \<Rightarrow> error + float" where
  "stof strtof s =
     (if stof_accepts s then
        (case strtof s of None \<Rightarrow> Inl UncaughtException | Some x \<Rightarrow> Inr x)
      else Inl UncaughtException)"

text \<open>
  What the demo runs in: the vendor library, the loader, and the runtime's \<open>atoi\<close>, \<open>atof\<close>
  (with the conversion of its \<open>double\<close> to \<open>float\<close>) and \<open>strtof\<close>.
\<close>

record env =
  vendor_lib :: vendor
  load_library :: loader
  c_atoi :: "string \<Rightarrow> int32"
  c_atof :: "string \<Rightarrow> float"
  c_strtof :: "string \<Rightarrow> float option"

text \<open>
  The loop of \<open>_tmain\<close>. \<open>input\<close> is the words still to come on the console; \<open>std::cin >> str\<close>
  takes the next one, and at the end of the input it fails and leaves \<open>str\<close> as it is, so
  the loop then goes on for ever. The first argument bounds the number of rounds: \<open>None\<close>
  is a loop that has not ended within it.
\<close>

fun main_loop ::
  "nat \<Rightarrow> env \<Rightarrow> int32 \<Rightarrow> float \<Rightarrow> string \<Rightarrow> string list \<Rightarrow> state
     \<Rightarrow> (error + (float \<times> state)) option" where
  "main_loop 0 E hdl current str input st = None"
| "main_loop (Suc k) E hdl current str input st =
     (if str \<noteq> ''quit'' \<and> str \<noteq> ''Quit'' \<and> str \<noteq> ''QUIT'' then
        (case (if str \<noteq> [] then stof (c_strtof E) str else Inr current) of
           Inl e \<Rightarrow> Some (Inl e)
         | Inr current' \<Rightarrow>
             (case SetCurrent (vendor_lib E) hdl current' st of
                Inl e \<Rightarrow> Some (Inl e)
              | Inr (ret, st') \<Rightarrow>
                  (case input of
                     [] \<Rightarrow> main_loop k E hdl current' str [] st'
                   | t # ts \<Rightarrow> main_loop k E hdl current' t ts st')))
      else Some (Inr (current, st)))"

text \<open>
  \<open>_tmain\<close>, with \<open>argv\<close> the program's arguments (its name first, so \<open>argc\<close> is their
  number). 50.0 is the float \<open>0x42480000\<close>.
\<close>

definition tmain ::
  "env \<Rightarrow> string list \<Rightarrow> string list \<Rightarrow> nat \<Rightarrow> (error + (int32 \<times> state)) option" where
  "tmain E argv input fuel =
     (let V = vendor_lib E;
          (channel, current) =
            (if length argv \<noteq> 3 then (3, Float 0x42480000)
             else (c_atoi E (argv ! 1), c_atof E (argv ! 2)));
          (r, st0) = init_MCLS1 (load_library E) initial_state
      in if r \<noteq> 0 then Some (Inr (0, st0))
         else
           (case fnMCLS1_DLL_List V (replicate MAXLEN NUL) (of_nat MAXLEN) st0 of
              Inl e \<Rightarrow> Some (Inl e)
            | Inr (n, c, st1) \<Rightarrow>
                (case fnMCLS1_DLL_Open V ''COM3'' st1 of
                   Inl e \<Rightarrow> Some (Inl e)
                 | Inr (hdl, st2) \<Rightarrow>
                     if sint hdl < 0 then Some (Inr (0, st2))
                     else
                       (case SetChannel V hdl channel st2 of
                          Inl e \<Rightarrow> Some (Inl e)
                        | Inr (ret, st3) \<Rightarrow>
                            (case main_loop fuel E hdl current [] input st3 of
                               None \<Rightarrow> None
                             | Some (Inl e) \<Rightarrow> Some (Inl e)
                             | Some (Inr (current', st4)) \<Rightarrow>
                                 (case fnMCLS1_DLL_SetEnable V hdl 0 st4 of
                                    Inl e \<Rightarrow> Some (Inl e)
                                  | Inr (ret', st5) \<Rightarrow>
                                      (case fnMCLS1_DLL_Close V hdl st5 of
                                         Inl e \<Rightarrow> Some (Inl e)
                                       | Inr (ret'', st6) \<Rightarrow> Some (Inr (0, st6)))))))))"

section \<open>The vocabulary of the properties\<close>

text \<open>
  One call of the export \<open>f\<close> with the arguments \<open>a\<close>, made in the state \<open>st\<close>: the
  status the vendor library answers, and the state with that one call added.
\<close>

definition called :: "vendor \<Rightarrow> string \<Rightarrow> vcall \<Rightarrow> state \<Rightarrow> int32 \<times> state" where
  "called V f a st = (fst (V (trace st) (f, a)), st\<lparr>trace := trace st @ [(f, a)]\<rparr>)"

text \<open>
  The arguments of a \<open>set\<close> call that carries the text \<open>s\<close>: the 32-byte command buffer
  holding \<open>s\<close> and NUL bytes after it, with the buffer's size.
\<close>

definition command :: "int32 \<Rightarrow> string \<Rightarrow> vcall" where
  "command hdl s = SetArgs hdl (char_array WRITE_BUFFER_SIZE s) (of_nat WRITE_BUFFER_SIZE)"

text \<open>The nine getters, the name each asks for and the characters its value is made of.\<close>

datatype getter =
    ActiveChannel | TargetTemperature | ActualTemperature | ActualCurrent | ActualPower
  | SystemEnable | Enable | Status | ID

fun run_getter ::
  "getter \<Rightarrow> vendor \<Rightarrow> int32 \<Rightarrow> char list \<Rightarrow> int32 \<Rightarrow> state
     \<Rightarrow> error + (int32 \<times> char list \<times> state)" where
  "run_getter ActiveChannel = fnMCLS1_DLL_GetActiveChannel"
| "run_getter TargetTemperature = fnMCLS1_DLL_GetTargetTemperature"
| "run_getter ActualTemperature = fnMCLS1_DLL_GetActualTemperature"
| "run_getter ActualCurrent = fnMCLS1_DLL_GetActualCurrent"
| "run_getter ActualPower = fnMCLS1_DLL_GetActualPower"
| "run_getter SystemEnable = fnMCLS1_DLL_GetSystemEnable"
| "run_getter Enable = fnMCLS1_DLL_GetEnable"
| "run_getter Status = fnMCLS1_DLL_GetStatus"
| "run_getter ID = fnMCLS1_DLL_GetID"

fun query_name :: "getter \<Rightarrow> string" where
  "query_name ActiveChannel = ''channel''"
| "query_name TargetTemperature = ''target''"
| "query_name ActualTemperature = ''temp''"
| "query_name ActualCurrent = ''current''"
| "query_name ActualPower = ''power''"
| "query_name SystemEnable = ''system''"
| "query_name Enable = ''enable''"
| "query_name Status = ''statword''"
| "query_name ID = ''id''"

definition is_alpha :: "char \<Rightarrow> bool" where
  "is_alpha c =
     ((65 \<le> (of_char c :: nat) \<and> (of_char c :: nat) \<le> 90)
      \<or> (97 \<le> (of_char c :: nat) \<and> (of_char c :: nat) \<le> 122))"

definition decimal_char :: "char \<Rightarrow> bool" where
  "decimal_char c = (is_digit c \<or> c = QUOTE \<or> c = CHR ''.'')"

fun value_char :: "getter \<Rightarrow> char \<Rightarrow> bool" where
  "value_char ActiveChannel = is_digit"
| "value_char TargetTemperature = decimal_char"
| "value_char ActualTemperature = decimal_char"
| "value_char ActualCurrent = decimal_char"
| "value_char ActualPower = decimal_char"
| "value_char SystemEnable = is_digit"
| "value_char Enable = is_digit"
| "value_char Status = is_digit"
| "value_char ID = (\<lambda>c. is_digit c \<or> is_alpha c \<or> c = CHR '' '' \<or> c = CHR ''.'')"

fun strip_prefix :: "string \<Rightarrow> string \<Rightarrow> string option" where
  "strip_prefix [] ys = Some ys"
| "strip_prefix (x # xs) [] = None"
| "strip_prefix (x # xs) (y # ys) = (if x = y then strip_prefix xs ys else None)"

text \<open>
  What a getter leaves in \<open>c\<close> for a reply: when the reply starts with the echoed query
  \<open>name?\<close>, the value is the longest run of value characters after it and after any white
  space (the echo's carriage return); a value that is not empty is stored in \<open>c\<close> with its
  NUL, as into a buffer of \<open>MAXLEN\<close> bytes; in every other case \<open>c\<close> stays as it was.
\<close>

definition extracted :: "getter \<Rightarrow> string \<Rightarrow> char list \<Rightarrow> char list" where
  "extracted g reply c =
     (case strip_prefix (query_name g @ ''?'') reply of
        None \<Rightarrow> c
      | Some rest \<Rightarrow>
          (let v = takeWhile (value_char g) (dropWhile isspace rest)
           in if v = [] then c else store_str c MAXLEN v))"







text \<open>The conversion that ends each getter's \<open>sscanf_s\<close> format, after the echoed query.\<close>

fun getter_format :: "getter \<Rightarrow> string" where
  "getter_format ActiveChannel = ''%[0-9]''"
| "getter_format TargetTemperature = ''%[0-9'' @ [QUOTE] @ ''.'' @ [QUOTE] @ '']''"
| "getter_format ActualTemperature = ''%[0-9'' @ [QUOTE] @ ''.'' @ [QUOTE] @ '']''"
| "getter_format ActualCurrent = ''%[0-9'' @ [QUOTE] @ ''.'' @ [QUOTE] @ '']''"
| "getter_format ActualPower = ''%[0-9'' @ [QUOTE] @ ''.'' @ [QUOTE] @ '']''"
| "getter_format SystemEnable = ''%[0-9]''"
| "getter_format Enable = ''%[0-9]''"
| "getter_format Status = ''%[0-9]''"
| "getter_format ID = ''%[0-9a-zA-Z .]''"

text \<open>
  A library whose \<open>get\<close> answers with the echoed query and three hundred digits, more than
  the response buffer holds.
\<close>

definition flooding_vendor :: vendor where
  "flooding_vendor h e =
     (case snd e of
        GetArgs hdl cmd buf \<Rightarrow> (0, cstr cmd @ replicate 300 (CHR ''7''))
      | _ \<Rightarrow> (0, []))"

text \<open>
  A command fits when its text, with the carriage return that ends it, and the NUL after
  it take no more than the command buffer.
\<close>

definition fits :: "string \<Rightarrow> arg list \<Rightarrow> bool" where
  "fits fmt args =
     (case sformat fmt args of None \<Rightarrow> False | Some s \<Rightarrow> length s + 1 \<le> WRITE_BUFFER_SIZE)"


subsection \<open>A library to run the wrapper against\<close>

text \<open>
  A vendor library for concrete runs: it lists two ports, opens with handle 5, answers a
  \<open>set\<close> with the number of calls made before it, and answers a \<open>get\<close> with status \<open>0xEA\<close>
  and the echoed query followed by \<open>3.25\<close> and a prompt.
\<close>

definition example_vendor :: vendor where
  "example_vendor h e =
     (case snd e of
        OpenArgs port baud timeout \<Rightarrow> (5, [])
      | ListArgs buf n \<Rightarrow> (2, ''COM3,COM4'' @ [NUL])
      | CloseArgs hdl \<Rightarrow> (0, [])
      | SetArgs hdl cmd n \<Rightarrow> (of_nat (length h), [])
      | GetArgs hdl cmd buf \<Rightarrow> (0xEA, cstr cmd @ ''3.25'' @ [CR, CHR ''>'', NUL]))"

text \<open>The five exports \<open>init_MCLS1\<close> looks up.\<close>

definition uart_exports :: "string list" where
  "uart_exports =
     [''fnUART_LIBRARY_open'', ''fnUART_LIBRARY_list'', ''fnUART_LIBRARY_close'',
      ''fnUART_LIBRARY_Set'', ''fnUART_LIBRARY_Get'']"

text \<open>A library that answers every call with a time-out and writes nothing.\<close>

definition silent_vendor :: vendor where
  "silent_vendor h e = (0xEB, [])"

definition example_loader :: loader where
  "example_loader path = (if path = dll_path then Some uart_exports else None)"

definition loaded_state :: state where
  "loaded_state =
     \<lparr>open_ptr = Some ''fnUART_LIBRARY_open'', list_ptr = Some ''fnUART_LIBRARY_list'',
      close_ptr = Some ''fnUART_LIBRARY_close'', set_ptr = Some ''fnUART_LIBRARY_Set'',
      get_ptr = Some ''fnUART_LIBRARY_Get'', trace = []\<rparr>"

subsection \<open>The demo's run\<close>

definition quit_word :: "string \<Rightarrow> bool" where
  "quit_word w = (w = ''quit'' \<or> w = ''Quit'' \<or> w = ''QUIT'')"

text \<open>
  A word the loop takes as a current: not one of the three that end it, read by \<open>std::stof\<close>
  as the float \<open>x\<close>, and with a command that fits the command buffer.
\<close>

definition accepted :: "env \<Rightarrow> string \<Rightarrow> float \<Rightarrow> bool" where
  "accepted E w x =
     (\<not> quit_word w \<and> stof (c_strtof E) w = Inr x \<and> fits (''current=%f'' @ [CR]) [AFloat x])"

text \<open>The vendor calls of a run, with the function pointers resolved to the five exports.\<close>

definition list_event :: event where
  "list_event = (''fnUART_LIBRARY_list'', ListArgs (replicate MAXLEN NUL) (of_nat MAXLEN))"

definition open_event :: event where
  "open_event = (''fnUART_LIBRARY_open'', OpenArgs ''COM3'' CBR_115200 3)"

definition set_event :: "int32 \<Rightarrow> string \<Rightarrow> event" where
  "set_event hdl s = (''fnUART_LIBRARY_Set'', command hdl s)"

definition close_event :: "int32 \<Rightarrow> event" where
  "close_event hdl = (''fnUART_LIBRARY_close'', CloseArgs hdl)"

text \<open>
  The calls of a whole run that sets the currents \<open>xs\<close> one after the other: list, open,
  channel, enable, each current twice, disable, close.
\<close>

definition demo_trace :: "int32 \<Rightarrow> int32 \<Rightarrow> float list \<Rightarrow> event list" where
  "demo_trace hdl channel xs =
     [list_event, open_event, set_event hdl (''channel='' @ fmt_d channel @ [CR]),
      set_event hdl (''enable=1'' @ [CR])]
     @ concat (map (\<lambda>x. [set_event hdl (''current='' @ fmt_f x @ [CR]),
                         set_event hdl (''current='' @ fmt_f x @ [CR])]) xs)
     @ [set_event hdl (''enable=0'' @ [CR]), close_event hdl]"

text \<open>
  An environment for concrete runs: the example library and loader, and a runtime whose
  \<open>strtof\<close> reads the two numbers typed in the runs below, 10 and 2.5.
\<close>

definition example_env :: env where
  "example_env =
     \<lparr>vendor_lib = example_vendor, load_library = example_loader,
      c_atoi = (\<lambda>s. 0), c_atof = (\<lambda>s. Float 0),
      c_strtof = (\<lambda>s. if s = ''10'' then Some (Float 0x41200000)
                       else if s = ''2.5'' then Some (Float 0x40200000) else None)\<rparr>"

section \<open>Auxiliary facts\<close>

subsection \<open>Formatting\<close>

lemma dec_nat_length: "0 < k \<Longrightarrow> n < 10 ^ k \<Longrightarrow> length (dec_nat n) \<le> k"
proof (induction k arbitrary: n)
  case 0
  then show ?case by simp
next
  case (Suc k)
  show ?case
  proof (cases "n < 10")
    case True
    then show ?thesis by (simp add: dec_nat.simps)
  next
    case False
    then have k: "0 < k" using Suc.prems by (cases k) auto
    have "n div 10 < 10 ^ k" using Suc.prems by (simp add: less_mult_imp_div_less)
    then have "length (dec_nat (n div 10)) \<le> k" using Suc.IH k by blast
    then show ?thesis using False by (subst dec_nat.simps) simp
  qed
qed

lemma dec_nat_nonempty: "dec_nat n \<noteq> []"
  by (subst dec_nat.simps) simp

lemma fmt_d_length: "length (fmt_d n) \<le> 11"
proof -
  have r: "- (2 ^ 31) \<le> sint n" "sint n < 2 ^ 31"
    using sint_ge [of n] sint_lt [of n] by simp_all
  show ?thesis
  proof (cases "sint n < 0")
    case True
    then have "nat (- sint n) < 10 ^ 10" using r by simp
    then have "length (dec_nat (nat (- sint n))) \<le> 10" by (intro dec_nat_length) simp_all
    then show ?thesis using True by (simp add: fmt_d_def)
  next
    case False
    then have "nat (sint n) < 10 ^ 10" using r by simp
    then have "length (dec_nat (nat (sint n))) \<le> 10" by (intro dec_nat_length) simp_all
    then show ?thesis using False by (simp add: fmt_d_def)
  qed
qed

lemma fmt_d_digit: "0 \<le> sint n \<Longrightarrow> sint n \<le> 9 \<Longrightarrow> fmt_d n = [digit_char (nat (sint n))]"
  by (simp add: fmt_d_def dec_nat.simps)

lemma sprintf_zeroed:
  "length s < n \<Longrightarrow> s @ NUL # drop (length s + 1) (replicate n NUL) = char_array n s"
  by (simp add: char_array_def replicate_append_same Suc_diff_Suc flip: replicate_Suc)

lemma sprintf_s_zeroed:
  "sprintf_s (replicate n NUL) n fmt args =
     (case sformat fmt args of
        None \<Rightarrow> Inl InvalidParameter
      | Some s \<Rightarrow> if length s < n then Inr (char_array n s) else Inl InvalidParameter)"
  unfolding sprintf_s_def using sprintf_zeroed by (simp split: option.splits)

lemma send_eq:
  "and_then (sprintf_s (replicate WRITE_BUFFER_SIZE NUL) WRITE_BUFFER_SIZE fmt args) (\<lambda>cmd.
     and_then (call_ptr V p (SetArgs hdl cmd (of_nat WRITE_BUFFER_SIZE)) st)
       (\<lambda>(ret, out, st'). Inr (ret, st')))
   = (case sformat fmt args of
        None \<Rightarrow> Inl InvalidParameter
      | Some s \<Rightarrow>
          if length s < WRITE_BUFFER_SIZE then
            (case p of None \<Rightarrow> Inl NullCall | Some f \<Rightarrow> Inr (called V f (command hdl s) st))
          else Inl InvalidParameter)"
  unfolding sprintf_s_zeroed
  by (simp add: and_then_def call_ptr_def called_def command_def
      split: option.splits prod.splits)

subsection \<open>The setters\<close>

lemma sformat_int:
  "sformat (''channel=%d'' @ [CR]) [AInt n] = Some (''channel='' @ fmt_d n @ [CR])"
  "sformat (''enable=%d'' @ [CR]) [AInt n] = Some (''enable='' @ fmt_d n @ [CR])"
  "sformat (''system=%d'' @ [CR]) [AInt n] = Some (''system='' @ fmt_d n @ [CR])"
  by (simp_all add: CR_def)

lemma sformat_float:
  "sformat (''target=%f'' @ [CR]) [AFloat x] = Some (''target='' @ fmt_f x @ [CR])"
  "sformat (''current=%f'' @ [CR]) [AFloat x] = Some (''current='' @ fmt_f x @ [CR])"
  by (simp_all add: CR_def)

lemma assert_then: "and_then (assert_c b) k = (if b then k () else Inl AssertionFailed)"
  by (simp add: and_then_def assert_c_def)

lemma SetActiveChannel_eq:
  "fnMCLS1_DLL_SetActiveChannel V hdl n st =
     (if 1 \<le> sint n \<and> sint n \<le> 4 then
        (case set_ptr st of
           None \<Rightarrow> Inl NullCall
         | Some f \<Rightarrow> Inr (called V f (command hdl (''channel='' @ fmt_d n @ [CR])) st))
      else Inl AssertionFailed)"
  unfolding fnMCLS1_DLL_SetActiveChannel_def assert_then send_eq sformat_int
  using fmt_d_length [of n] by (simp add: WRITE_BUFFER_SIZE_def split: option.splits)

lemma SetEnable_eq:
  "fnMCLS1_DLL_SetEnable V hdl n st =
     (if 0 \<le> sint n \<and> sint n \<le> 1 then
        (case set_ptr st of
           None \<Rightarrow> Inl NullCall
         | Some f \<Rightarrow> Inr (called V f (command hdl (''enable='' @ fmt_d n @ [CR])) st))
      else Inl AssertionFailed)"
  unfolding fnMCLS1_DLL_SetEnable_def assert_then send_eq sformat_int
  using fmt_d_length [of n] by (simp add: WRITE_BUFFER_SIZE_def split: option.splits)

lemma SetSystemEnable_eq:
  "fnMCLS1_DLL_SetSystemEnable V hdl n st =
     (if 0 \<le> sint n \<and> sint n \<le> 1 then
        (case set_ptr st of
           None \<Rightarrow> Inl NullCall
         | Some f \<Rightarrow> Inr (called V f (command hdl (''system='' @ fmt_d n @ [CR])) st))
      else Inl AssertionFailed)"
  unfolding fnMCLS1_DLL_SetSystemEnable_def assert_then send_eq sformat_int
  using fmt_d_length [of n] by (simp add: WRITE_BUFFER_SIZE_def split: option.splits)

lemma SetCurrent_eq:
  "fnMCLS1_DLL_SetCurrent V hdl x st =
     (if length (fmt_f x) \<le> 22 then
        (case set_ptr st of
           None \<Rightarrow> Inl NullCall
         | Some f \<Rightarrow> Inr (called V f (command hdl (''current='' @ fmt_f x @ [CR])) st))
      else Inl InvalidParameter)"
  unfolding fnMCLS1_DLL_SetCurrent_def send_eq sformat_float
  by (auto simp add: WRITE_BUFFER_SIZE_def split: option.splits)

lemma SetTargeTemperature_eq:
  "fnMCLS1_DLL_SetTargeTemperature V hdl x st =
     (if f_le TEMP_LO x \<and> f_le x TEMP_HI then
        (if length (fmt_f x) \<le> 23 then
           (case set_ptr st of
              None \<Rightarrow> Inl NullCall
            | Some f \<Rightarrow> Inr (called V f (command hdl (''target='' @ fmt_f x @ [CR])) st))
         else Inl InvalidParameter)
      else Inl AssertionFailed)"
  unfolding fnMCLS1_DLL_SetTargeTemperature_def assert_then send_eq sformat_float
  by (auto simp add: WRITE_BUFFER_SIZE_def split: option.splits)

lemma f_key_TEMP: "f_key TEMP_LO = 20 * 2 ^ 149" "f_key TEMP_HI = 30 * 2 ^ 149"
  by (simp_all add: TEMP_LO_def TEMP_HI_def f_key_def f_mag_def)

lemma not_nan_TEMP: "\<not> is_nan TEMP_LO" "\<not> is_nan TEMP_HI"
  by (simp_all add: TEMP_LO_def TEMP_HI_def is_nan_def)

lemma in_range_iff:
  "(f_le TEMP_LO x \<and> f_le x TEMP_HI) = (\<not> is_nan x \<and> 20 * 2 ^ 149 \<le> f_key x \<and> f_key x \<le> 30 * 2 ^ 149)"
  by (auto simp: f_le_def f_key_TEMP not_nan_TEMP)

lemma round_half_even_le: "round_half_even a b \<le> a div b + 1"
  by (simp add: round_half_even_def Let_def)

lemma pad6_length: "n < 10 ^ 6 \<Longrightarrow> length (pad6 n) = 6"
  using dec_nat_length [of 6 n] by (simp add: pad6_def)

lemma f_mag_inf: "is_inf x \<Longrightarrow> f_mag x = 2 ^ 277"
  by (simp add: is_inf_def f_mag_def)

lemma fmt_f_finite_length:
  assumes "\<not> is_nan x" and "f_mag x \<le> m * 2 ^ 149" and "m < 2 ^ 128" and "m < 10 ^ k" and "0 < k"
  shows "length (fmt_f x) \<le> (if f_sign x then 1 else 0) + k + 7"
proof -
  let ?q = "round_half_even (f_mag x * 10 ^ 6) (2 ^ 149)"
  have "f_mag x * 10 ^ 6 \<le> (m * 10 ^ 6) * 2 ^ 149" using assms(2) by simp
  then have "f_mag x * 10 ^ 6 div 2 ^ 149 \<le> (m * 10 ^ 6) * 2 ^ 149 div 2 ^ 149"
    by (rule div_le_mono)
  then have "f_mag x * 10 ^ 6 div 2 ^ 149 \<le> m * 10 ^ 6" by simp
  then have "?q \<le> m * 10 ^ 6 + 1"
    using round_half_even_le [of "f_mag x * 10 ^ 6" "2 ^ 149"] by linarith
  then have "?q div 10 ^ 6 \<le> (m * 10 ^ 6 + 1) div 10 ^ 6" by (rule div_le_mono)
  then have "?q div 10 ^ 6 \<le> m" by simp
  then have "?q div 10 ^ 6 < 10 ^ k" using assms(4) by linarith
  then have ip: "length (dec_nat (?q div 10 ^ 6)) \<le> k" using assms(5) dec_nat_length by blast
  have fp: "length (pad6 (?q mod 10 ^ 6)) = 6" by (rule pad6_length) simp
  have "m * 2 ^ 149 < 2 ^ 128 * (2 ^ 149 :: nat)" using assms(3) by simp
  then have "f_mag x < 2 ^ 277" using assms(2) by simp
  then have inf: "\<not> is_inf x" using f_mag_inf by fastforce
  show ?thesis using ip fp inf assms(1) by (simp add: fmt_f_def Let_def)
qed

lemma temperature_fits:
  assumes "f_le TEMP_LO x" and "f_le x TEMP_HI"
  shows "length (fmt_f x) \<le> 9"
proof -
  have k: "\<not> is_nan x" "20 * 2 ^ 149 \<le> f_key x" "f_key x \<le> 30 * 2 ^ 149"
    using assms in_range_iff by blast+
  have pos: "\<not> f_sign x" using k(2) by (auto simp: f_key_def split: if_splits)
  then have "f_mag x \<le> 30 * 2 ^ 149" using k(3) by (simp add: f_key_def)
  then have "length (fmt_f x) \<le> (if f_sign x then 1 else 0) + 2 + 7"
    using k(1) by (intro fmt_f_finite_length [where m = 30]) simp_all
  then show ?thesis using pos by simp
qed

subsection \<open>Scanning and the getters\<close>

lemma scan_lits:
  "scan (map Lit p @ ds) inp buf sz =
     (case strip_prefix p inp of None \<Rightarrow> buf | Some rest \<Rightarrow> scan ds rest buf sz)"
proof (induction p arbitrary: inp)
  case Nil
  then show ?case by simp
next
  case (Cons a p)
  then show ?case by (cases inp) auto
qed

lemma of_char_between: "((of_char a :: nat) \<le> of_char c \<and> (of_char c :: nat) \<le> of_char a) = (c = a)"
  by (auto dest: antisym)

lemma in_scanset_Nil: "in_scanset False [] c = False"
  by (simp add: in_scanset_def)

lemma in_scanset_Cons:
  "in_scanset neg ((a, b) # rs) c =
     (if (of_char a :: nat) \<le> of_char c \<and> (of_char c :: nat) \<le> of_char b then \<not> neg
      else in_scanset neg rs c)"
  by (auto simp add: in_scanset_def)

lemma in_scanset_single:
  "in_scanset neg ((a, a) # rs) c = (if c = a then \<not> neg else in_scanset neg rs c)"
  unfolding in_scanset_Cons of_char_between ..

lemma scanset_digit: "in_scanset False [(CHR ''0'', CHR ''9'')] = is_digit"
  by (simp add: fun_eq_iff in_scanset_def is_digit_def)

lemma scanset_decimal:
  "in_scanset False [(CHR ''0'', CHR ''9''), (QUOTE, QUOTE), (CHR ''.'', CHR ''.''), (QUOTE, QUOTE)]
     = decimal_char"
proof
  fix c
  have "in_scanset False [(CHR ''0'', CHR ''9''), (QUOTE, QUOTE), (CHR ''.'', CHR ''.''), (QUOTE, QUOTE)] c
        = (if (of_char (CHR ''0'') :: nat) \<le> of_char c \<and> (of_char c :: nat) \<le> of_char (CHR ''9'')
           then True else if c = QUOTE then True else if c = CHR ''.'' then True
           else if c = QUOTE then True else False)"
    by (simp only: in_scanset_single in_scanset_Cons [of _ "CHR ''0''"] in_scanset_Nil not_False_eq_True)
  then show "in_scanset False [(CHR ''0'', CHR ''9''), (QUOTE, QUOTE), (CHR ''.'', CHR ''.''), (QUOTE, QUOTE)] c
        = decimal_char c"
    by (simp add: decimal_char_def is_digit_def)
qed

lemma scanset_id:
  "in_scanset False
     [(CHR ''0'', CHR ''9''), (CHR ''a'', CHR ''z''), (CHR ''A'', CHR ''Z''),
      (CHR '' '', CHR '' ''), (CHR ''.'', CHR ''.'')]
     = (\<lambda>c. is_digit c \<or> is_alpha c \<or> c = CHR '' '' \<or> c = CHR ''.'')"
proof
  fix c
  have "in_scanset False
     [(CHR ''0'', CHR ''9''), (CHR ''a'', CHR ''z''), (CHR ''A'', CHR ''Z''),
      (CHR '' '', CHR '' ''), (CHR ''.'', CHR ''.'')] c
      = (if (of_char (CHR ''0'') :: nat) \<le> of_char c \<and> (of_char c :: nat) \<le> of_char (CHR ''9'')
           then True
         else if (of_char (CHR ''a'') :: nat) \<le> of_char c \<and> (of_char c :: nat) \<le> of_char (CHR ''z'')
           then True
         else if (of_char (CHR ''A'') :: nat) \<le> of_char c \<and> (of_char c :: nat) \<le> of_char (CHR ''Z'')
           then True
         else if c = CHR '' '' then True else if c = CHR ''.'' then True else False)"
    by (simp only: in_scanset_single in_scanset_Cons [of _ "CHR ''0''"]
        in_scanset_Cons [of _ "CHR ''a''"] in_scanset_Cons [of _ "CHR ''A''"] in_scanset_Nil
        not_False_eq_True)
  then show "in_scanset False
     [(CHR ''0'', CHR ''9''), (CHR ''a'', CHR ''z''), (CHR ''A'', CHR ''Z''),
      (CHR '' '', CHR '' ''), (CHR ''.'', CHR ''.'')] c
      = (is_digit c \<or> is_alpha c \<or> c = CHR '' '' \<or> c = CHR ''.'')"
    by (auto simp add: is_digit_def is_alpha_def)
qed

lemma scanset_not_comma: "in_scanset True [(CHR '','', CHR '','')] = (\<lambda>c. c \<noteq> CHR '','')"
proof
  fix c
  show "in_scanset True [(CHR '','', CHR '','')] c = (c \<noteq> CHR '','')"
    by (simp only: in_scanset_single) (simp add: in_scanset_def)
qed

lemma parse_getter_fmt:
  "parse_fmt None (''channel?'' @ [CR] @ ''%[0-9]'')
     = map Lit ''channel?'' @ [Space, Scanset False [(CHR ''0'', CHR ''9'')]]"
  "parse_fmt None (''system?'' @ [CR] @ ''%[0-9]'')
     = map Lit ''system?'' @ [Space, Scanset False [(CHR ''0'', CHR ''9'')]]"
  "parse_fmt None (''enable?'' @ [CR] @ ''%[0-9]'')
     = map Lit ''enable?'' @ [Space, Scanset False [(CHR ''0'', CHR ''9'')]]"
  "parse_fmt None (''statword?'' @ [CR] @ ''%[0-9]'')
     = map Lit ''statword?'' @ [Space, Scanset False [(CHR ''0'', CHR ''9'')]]"
  "parse_fmt None (''target?'' @ [CR] @ ''%[0-9'' @ [QUOTE] @ ''.'' @ [QUOTE] @ '']'')
     = map Lit ''target?'' @ [Space, Scanset False
         [(CHR ''0'', CHR ''9''), (QUOTE, QUOTE), (CHR ''.'', CHR ''.''), (QUOTE, QUOTE)]]"
  "parse_fmt None (''temp?'' @ [CR] @ ''%[0-9'' @ [QUOTE] @ ''.'' @ [QUOTE] @ '']'')
     = map Lit ''temp?'' @ [Space, Scanset False
         [(CHR ''0'', CHR ''9''), (QUOTE, QUOTE), (CHR ''.'', CHR ''.''), (QUOTE, QUOTE)]]"
  "parse_fmt None (''current?'' @ [CR] @ ''%[0-9'' @ [QUOTE] @ ''.'' @ [QUOTE] @ '']'')
     = map Lit ''current?'' @ [Space, Scanset False
         [(CHR ''0'', CHR ''9''), (QUOTE, QUOTE), (CHR ''.'', CHR ''.''), (QUOTE, QUOTE)]]"
  "parse_fmt None (''power?'' @ [CR] @ ''%[0-9'' @ [QUOTE] @ ''.'' @ [QUOTE] @ '']'')
     = map Lit ''power?'' @ [Space, Scanset False
         [(CHR ''0'', CHR ''9''), (QUOTE, QUOTE), (CHR ''.'', CHR ''.''), (QUOTE, QUOTE)]]"
  "parse_fmt None (''id?'' @ [CR] @ ''%[0-9a-zA-Z .]'')
     = map Lit ''id?'' @ [Space, Scanset False
         [(CHR ''0'', CHR ''9''), (CHR ''a'', CHR ''z''), (CHR ''A'', CHR ''Z''),
          (CHR '' '', CHR '' ''), (CHR ''.'', CHR ''.'')]]"
  "parse_fmt None ''%[^,]'' = [Scanset True [(CHR '','', CHR '','')]]"
  by (simp_all add: isspace_def CR_def QUOTE_def)

lemma scan_value:
  "scan [Space, Scanset neg rs] rest c sz =
     (let v = takeWhile (in_scanset neg rs) (dropWhile isspace rest)
      in if v = [] then c else store_str c sz v)"
  by simp

lemma sscanf_getter:
  "sscanf_s inp (''channel?'' @ [CR] @ ''%[0-9]'') c MAXLEN = extracted ActiveChannel (cstr inp) c"
  "sscanf_s inp (''target?'' @ [CR] @ ''%[0-9'' @ [QUOTE] @ ''.'' @ [QUOTE] @ '']'') c MAXLEN
     = extracted TargetTemperature (cstr inp) c"
  "sscanf_s inp (''temp?'' @ [CR] @ ''%[0-9'' @ [QUOTE] @ ''.'' @ [QUOTE] @ '']'') c MAXLEN
     = extracted ActualTemperature (cstr inp) c"
  "sscanf_s inp (''current?'' @ [CR] @ ''%[0-9'' @ [QUOTE] @ ''.'' @ [QUOTE] @ '']'') c MAXLEN
     = extracted ActualCurrent (cstr inp) c"
  "sscanf_s inp (''power?'' @ [CR] @ ''%[0-9'' @ [QUOTE] @ ''.'' @ [QUOTE] @ '']'') c MAXLEN
     = extracted ActualPower (cstr inp) c"
  "sscanf_s inp (''system?'' @ [CR] @ ''%[0-9]'') c MAXLEN = extracted SystemEnable (cstr inp) c"
  "sscanf_s inp (''enable?'' @ [CR] @ ''%[0-9]'') c MAXLEN = extracted Enable (cstr inp) c"
  "sscanf_s inp (''statword?'' @ [CR] @ ''%[0-9]'') c MAXLEN = extracted Status (cstr inp) c"
  "sscanf_s inp (''id?'' @ [CR] @ ''%[0-9a-zA-Z .]'') c MAXLEN = extracted ID (cstr inp) c"
  unfolding sscanf_s_def extracted_def parse_getter_fmt scan_lits scan_value
    scanset_digit scanset_decimal scanset_id
  by (simp_all split: option.splits)

lemma sscanf_first_entry:
  "sscanf_s inp ''%[^,]'' port MAXLEN =
     (let first = takeWhile (\<lambda>c. c \<noteq> CHR '','') (cstr inp)
      in if first = [] then port else store_str port MAXLEN first)"
  unfolding sscanf_s_def parse_getter_fmt by (simp add: scanset_not_comma)

lemma call_then:
  "and_then (call_ptr V p a st) k =
     (case p of
        None \<Rightarrow> Inl NullCall
      | Some f \<Rightarrow> k (fst (V (trace st) (f, a)), snd (V (trace st) (f, a)), snd (called V f a st)))"
  by (simp add: and_then_def call_ptr_def called_def split: option.splits prod.splits)

lemma getter_eq:
  "run_getter g V hdl c limit st =
     (case get_ptr st of
        None \<Rightarrow> Inl NullCall
      | Some f \<Rightarrow>
          (let a = GetArgs hdl (char_array WRITE_BUFFER_SIZE (query_name g @ ''?'' @ [CR]))
                     (replicate MAXLEN NUL)
           in Inr (fst (called V f a st),
                   extracted g (cstr (poke (replicate MAXLEN NUL) (snd (V (trace st) (f, a))))) c,
                   snd (called V f a st))))"
  by (cases g;
      simp only: run_getter.simps fnMCLS1_DLL_GetActiveChannel_def
        fnMCLS1_DLL_GetTargetTemperature_def fnMCLS1_DLL_GetActualTemperature_def
        fnMCLS1_DLL_GetActualCurrent_def fnMCLS1_DLL_GetActualPower_def
        fnMCLS1_DLL_GetSystemEnable_def fnMCLS1_DLL_GetEnable_def fnMCLS1_DLL_GetStatus_def
        fnMCLS1_DLL_GetID_def Let_def call_then sscanf_getter;
      simp add: called_def split: option.splits)

subsection \<open>Every operation\<close>

lemma List_eq:
  "fnMCLS1_DLL_List V port var st =
     (case list_ptr st of
        None \<Rightarrow> Inl NullCall
      | Some f \<Rightarrow>
          (let a = ListArgs (replicate MAXLEN NUL) (of_nat MAXLEN);
               first = takeWhile (\<lambda>c. c \<noteq> CHR '','')
                         (cstr (poke (replicate MAXLEN NUL) (snd (V (trace st) (f, a)))))
           in Inr (fst (called V f a st),
                   if first = [] then port else store_str port MAXLEN first,
                   snd (called V f a st))))"
  unfolding fnMCLS1_DLL_List_def Let_def call_then sscanf_first_entry
  by (simp add: called_def split: option.splits)

lemma Open_eq:
  "fnMCLS1_DLL_Open V port st =
     (case open_ptr st of
        None \<Rightarrow> Inl NullCall
      | Some f \<Rightarrow> Inr (called V f (OpenArgs port CBR_115200 3) st))"
  unfolding fnMCLS1_DLL_Open_def call_then by (simp add: called_def split: option.splits)

lemma Close_eq:
  "fnMCLS1_DLL_Close V hdl st =
     (case close_ptr st of
        None \<Rightarrow> Inl NullCall
      | Some f \<Rightarrow> Inr (called V f (CloseArgs hdl) st))"
  unfolding fnMCLS1_DLL_Close_def call_then by (simp add: called_def split: option.splits)







subsection \<open>Concrete values\<close>

lemma replicate_unfold: "replicate n x = (if n = 0 then [] else x # replicate (n - 1) x)"
  by (cases n) simp_all

lemma pad6_0: "pad6 0 = ''000000''"
  by (simp add: pad6_def dec_nat.simps digit_char_def replicate_unfold)

lemma fmt_f_2_60: "fmt_f (Float 0x5D800000) = ''1152921504606846976.000000''"
  apply (simp add: fmt_f_def is_nan_def is_inf_def f_mag_def)
  apply (simp add: round_half_even_def Let_def)
  apply (simp add: pad6_0)
  apply (simp add: dec_nat.simps digit_char_def)
  done

lemma fmt_f_50: "fmt_f (Float 0x42480000) = ''50.000000''"
  apply (simp add: fmt_f_def is_nan_def is_inf_def f_mag_def)
  apply (simp add: round_half_even_def Let_def)
  apply (simp add: pad6_0)
  apply (simp add: dec_nat.simps digit_char_def)
  done

lemma fmt_f_25: "fmt_f (Float 0x41C80000) = ''25.000000''"
  apply (simp add: fmt_f_def is_nan_def is_inf_def f_mag_def)
  apply (simp add: round_half_even_def Let_def)
  apply (simp add: pad6_0)
  apply (simp add: dec_nat.simps digit_char_def)
  done

lemma fmt_d_small:
  "fmt_d 0 = ''0''" "fmt_d 1 = ''1''" "fmt_d 3 = ''3''"
  by (simp_all add: fmt_d_def dec_nat.simps digit_char_def)



lemma fits_current: "fits (''current=%f'' @ [CR]) [AFloat y] = (length (fmt_f y) \<le> 22)"
  unfolding fits_def sformat_float by (auto simp add: WRITE_BUFFER_SIZE_def)



lemma fmt_f_max: "fmt_f (Float 0x7F7FFFFF) = ''340282346638528859811704183484516925440.000000''"
  apply (simp add: fmt_f_def is_nan_def is_inf_def f_mag_def)
  apply (simp add: round_half_even_def Let_def)
  apply (simp add: pad6_0)
  apply (simp add: dec_nat.simps digit_char_def)
  done

subsection \<open>The demo\<close>

lemma init_ok:
  assumes "L dll_path = Some dll" and "set uart_exports \<subseteq> set dll"
  shows "init_MCLS1 L initial_state = (0, loaded_state)"
  using assms
  by (simp add: init_MCLS1_def Let_def GetProcAddress_def uart_exports_def initial_state_def
      loaded_state_def)

lemma SetCurrent_twice:
  assumes "set_ptr st = Some f" and "fits (''current=%f'' @ [CR]) [AFloat x]"
  shows "SetCurrent V hdl x st =
           Inr (fst (V (trace st @ [(f, command hdl (''current='' @ fmt_f x @ [CR]))])
                       (f, command hdl (''current='' @ fmt_f x @ [CR]))),
                st\<lparr>trace := trace st @ [(f, command hdl (''current='' @ fmt_f x @ [CR])),
                                         (f, command hdl (''current='' @ fmt_f x @ [CR]))]\<rparr>)"
  using assms unfolding fits_current SetCurrent_def SetCurrent_eq
  by (simp add: and_then_def called_def)

lemma SetChannel_sends:
  assumes "set_ptr st = Some f" and "1 \<le> sint n" and "sint n \<le> 4"
  shows "SetChannel V hdl n st =
           Inr (fst (V (trace st @ [(f, command hdl (''channel='' @ fmt_d n @ [CR]))])
                       (f, command hdl (''enable=1'' @ [CR]))),
                st\<lparr>trace := trace st @ [(f, command hdl (''channel='' @ fmt_d n @ [CR])),
                                         (f, command hdl (''enable=1'' @ [CR]))]\<rparr>)"
  using assms unfolding SetChannel_def SetActiveChannel_eq SetEnable_eq
  by (simp add: and_then_def called_def fmt_d_small)

lemma stof_empty: "stof s [] = Inl UncaughtException"
  by (simp add: stof_def stof_accepts_def)

lemma quit_word_iff: "(str \<noteq> ''quit'' \<and> str \<noteq> ''Quit'' \<and> str \<noteq> ''QUIT'') = (\<not> quit_word str)"
  by (simp add: quit_word_def)

lemma main_loop_Suc:
  "main_loop (Suc k) E hdl current str input st =
     (if \<not> quit_word str then
        (case (if str \<noteq> [] then stof (c_strtof E) str else Inr current) of
           Inl e \<Rightarrow> Some (Inl e)
         | Inr current' \<Rightarrow>
             (case SetCurrent (vendor_lib E) hdl current' st of
                Inl e \<Rightarrow> Some (Inl e)
              | Inr (ret, st') \<Rightarrow>
                  (case input of
                     [] \<Rightarrow> main_loop k E hdl current' str [] st'
                   | t # ts \<Rightarrow> main_loop k E hdl current' t ts st')))
      else Some (Inr (current, st)))"
  unfolding quit_word_iff [symmetric] by (rule main_loop.simps)

lemma main_loop_quit:
  "quit_word str \<Longrightarrow> main_loop (Suc k) E hdl current str input st = Some (Inr (current, st))"
  unfolding main_loop_Suc by simp

lemma main_loop_step:
  assumes "set_ptr st = Some ''fnUART_LIBRARY_Set''"
    and "\<not> quit_word str"
    and "(if str \<noteq> [] then stof (c_strtof E) str else Inr current) = Inr x"
    and "fits (''current=%f'' @ [CR]) [AFloat x]"
  shows "main_loop (Suc k) E hdl current str (t # ts) st =
           main_loop k E hdl x t ts
             (st\<lparr>trace := trace st @ [set_event hdl (''current='' @ fmt_f x @ [CR]),
                                      set_event hdl (''current='' @ fmt_f x @ [CR])]\<rparr>)"
proof -
  have "main_loop (Suc k) E hdl current str (t # ts) st =
          (case SetCurrent (vendor_lib E) hdl x st of
             Inl e \<Rightarrow> Some (Inl e)
           | Inr (ret, st') \<Rightarrow> main_loop k E hdl x t ts st')"
    unfolding main_loop_Suc by (simp add: assms(2) assms(3) split: sum.splits)
  then show ?thesis
    unfolding SetCurrent_twice [OF assms(1) assms(4)] set_event_def by simp
qed

lemma main_loop_runs:
  assumes "set_ptr st = Some ''fnUART_LIBRARY_Set''"
    and "list_all2 (accepted E) pre xs"
    and "quit_word q"
    and "\<not> quit_word str"
    and "(if str \<noteq> [] then stof (c_strtof E) str else Inr current) = Inr x"
    and "fits (''current=%f'' @ [CR]) [AFloat x]"
    and "length pre + 1 < fuel"
  shows "main_loop fuel E hdl current str (pre @ q # rest) st =
           Some (Inr (last (x # xs),
                      st\<lparr>trace := trace st @
                        concat (map (\<lambda>x. [set_event hdl (''current='' @ fmt_f x @ [CR]),
                                            set_event hdl (''current='' @ fmt_f x @ [CR])])
                                  (x # xs))\<rparr>))"
  using assms
proof (induction pre arbitrary: xs fuel current str st x)
  case Nil
  then have "fuel = Suc (Suc (fuel - 2))" by simp
  then obtain k where k: "fuel = Suc (Suc k)" ..
  have xs: "xs = []" using Nil.prems(2) by simp
  have "main_loop fuel E hdl current str (q # rest) st =
          Some (Inr (x, st\<lparr>trace := trace st @ [set_event hdl (''current='' @ fmt_f x @ [CR]),
                                      set_event hdl (''current='' @ fmt_f x @ [CR])]\<rparr>))"
    unfolding k main_loop_step [OF Nil.prems(1) Nil.prems(4) Nil.prems(5) Nil.prems(6)]
    by (rule main_loop_quit [OF Nil.prems(3)])
  then show ?case by (simp add: xs)
next
  case (Cons w ws)
  then have "fuel = Suc (fuel - 1) \<and> length ws + 1 < fuel - 1" by simp
  then obtain k where k: "fuel = Suc k" and kl: "length ws + 1 < k" by blast
  obtain y ys where xs: "xs = y # ys" and wy: "accepted E w y" and rest: "list_all2 (accepted E) ws ys"
    using Cons.prems(2) by (auto simp: list_all2_Cons1)
  let ?ev = "set_event hdl (''current='' @ fmt_f x @ [CR])"
  let ?st = "st\<lparr>trace := trace st @ [?ev, ?ev]\<rparr>"
  have w: "\<not> quit_word w" "stof (c_strtof E) w = Inr y" "fits (''current=%f'' @ [CR]) [AFloat y]"
    using wy by (simp_all add: accepted_def)
  have wne: "w \<noteq> []"
  proof
    assume "w = []"
    then show False using w(2) stof_empty [of "c_strtof E"] by simp
  qed
  have ptr: "set_ptr ?st = Some ''fnUART_LIBRARY_Set''" using Cons.prems(1) by simp
  have val: "(if w \<noteq> [] then stof (c_strtof E) w else Inr x) = Inr y" using w wne by simp
  have step: "main_loop k E hdl x w (ws @ q # rest) ?st =
      Some (Inr (last (y # ys),
                 ?st\<lparr>trace := trace ?st @
                   concat (map (\<lambda>x. [set_event hdl (''current='' @ fmt_f x @ [CR]),
                                       set_event hdl (''current='' @ fmt_f x @ [CR])])
                             (y # ys))\<rparr>))"
    by (rule Cons.IH [OF ptr rest Cons.prems(3) w(1) val w(3) kl])
  have "main_loop fuel E hdl current str ((w # ws) @ q # rest) st =
          main_loop k E hdl x w (ws @ q # rest) ?st"
    unfolding k
    using main_loop_step [OF Cons.prems(1) Cons.prems(4) Cons.prems(5) Cons.prems(6),
        of k hdl w "ws @ q # rest"]
    by simp
  then show ?case unfolding step by (simp add: xs)
qed

lemma main_loop_returns_at_quit:
  "main_loop fuel E hdl current str input st = Some (Inr r) \<Longrightarrow>
   quit_word str \<or> list_ex quit_word input"
proof (induction fuel arbitrary: current str input st)
  case 0
  then show ?case by simp
next
  case (Suc k)
  show ?case
  proof (cases "quit_word str")
    case True
    then show ?thesis by simp
  next
    case False
    then obtain current' st' where
      rec: "(case input of
               [] \<Rightarrow> main_loop k E hdl current' str [] st'
             | t # ts \<Rightarrow> main_loop k E hdl current' t ts st') = Some (Inr r)"
      using Suc.prems unfolding main_loop_Suc by (auto split: sum.splits)
    show ?thesis
    proof (cases input)
      case Nil
      then show ?thesis using rec Suc.IH [of current' str "[]" st'] by simp
    next
      case (Cons t ts)
      then show ?thesis using rec Suc.IH [of current' t ts st'] by simp
    qed
  qed
qed

text \<open>
  At the end of the input, with a word that is a current and no quit word, no number of
  rounds ends the loop.
\<close>

lemma main_loop_end_of_input:
  assumes "set_ptr st = Some ''fnUART_LIBRARY_Set''"
    and "\<not> quit_word str"
    and "(if str \<noteq> [] then stof (c_strtof E) str else Inr current) = Inr x"
    and "fits (''current=%f'' @ [CR]) [AFloat x]"
  shows "main_loop fuel E hdl current str [] st = None"
  using assms
proof (induction fuel arbitrary: st current)
  case 0
  then show ?case by simp
next
  case (Suc k)
  let ?ev = "set_event hdl (''current='' @ fmt_f x @ [CR])"
  let ?st = "st\<lparr>trace := trace st @ [?ev, ?ev]\<rparr>"
  have v: "(if str \<noteq> [] then stof (c_strtof E) str else Inr x) = Inr x"
    using Suc.prems(3) by (simp split: if_splits)
  have "main_loop (Suc k) E hdl current str [] st =
          (case SetCurrent (vendor_lib E) hdl x st of
             Inl e \<Rightarrow> Some (Inl e)
           | Inr (ret, st') \<Rightarrow> main_loop k E hdl x str [] st')"
    unfolding main_loop_Suc by (simp add: Suc.prems(2) Suc.prems(3) split: sum.splits)
  then have "main_loop (Suc k) E hdl current str [] st = main_loop k E hdl x str [] ?st"
    unfolding SetCurrent_twice [OF Suc.prems(1) Suc.prems(4)] set_event_def by simp
  moreover have "main_loop k E hdl x str [] ?st = None"
    by (rule Suc.IH [OF _ Suc.prems(2) v Suc.prems(4)]) (simp add: Suc.prems(1))
  ultimately show ?case by simp
qed

lemma tmain_opening:
  assumes "load_library E dll_path = Some dll" and "set uart_exports \<subseteq> set dll"
    and "(if length argv \<noteq> 3 then (3, Float 0x42480000)
          else (c_atoi E (argv ! 1), c_atof E (argv ! 2))) = (channel, current)"
    and "hdl = fst (vendor_lib E [list_event] open_event)"
  shows "tmain E argv input fuel =
     (let V = vendor_lib E; st2 = loaded_state\<lparr>trace := [list_event, open_event]\<rparr>
      in if sint hdl < 0 then Some (Inr (0, st2))
         else
           (case SetChannel V hdl channel st2 of
              Inl e \<Rightarrow> Some (Inl e)
            | Inr (ret, st3) \<Rightarrow>
                (case main_loop fuel E hdl current [] input st3 of
                   None \<Rightarrow> None
                 | Some (Inl e) \<Rightarrow> Some (Inl e)
                 | Some (Inr (current', st4)) \<Rightarrow>
                     (case fnMCLS1_DLL_SetEnable V hdl 0 st4 of
                        Inl e \<Rightarrow> Some (Inl e)
                      | Inr (ret', st5) \<Rightarrow>
                          (case fnMCLS1_DLL_Close V hdl st5 of
                             Inl e \<Rightarrow> Some (Inl e)
                           | Inr (ret'', st6) \<Rightarrow> Some (Inr (0, st6)))))))"
proof -
  have "\<exists>n c. fnMCLS1_DLL_List (vendor_lib E) (replicate MAXLEN NUL) (of_nat MAXLEN) loaded_state
        = Inr (n, c, loaded_state\<lparr>trace := [list_event]\<rparr>)"
    unfolding List_eq by (simp add: loaded_state_def called_def list_event_def Let_def)
  then obtain n c where
    l: "fnMCLS1_DLL_List (vendor_lib E) (replicate MAXLEN NUL) (of_nat MAXLEN) loaded_state
        = Inr (n, c, loaded_state\<lparr>trace := [list_event]\<rparr>)"
    by blast
  have opn: "fnMCLS1_DLL_Open (vendor_lib E) ''COM3'' (loaded_state\<lparr>trace := [list_event]\<rparr>)
        = Inr (hdl, loaded_state\<lparr>trace := [list_event, open_event]\<rparr>)"
    unfolding Open_eq assms(4) by (simp add: loaded_state_def called_def open_event_def)
  show ?thesis
    unfolding tmain_def assms(3) init_ok [of "load_library E" dll, OF assms(1) assms(2)] Let_def
    by (simp add: l opn)
qed

lemma tmain_closing:
  assumes "set_ptr st = Some ''fnUART_LIBRARY_Set''" and "close_ptr st = Some ''fnUART_LIBRARY_close''"
  shows "(case fnMCLS1_DLL_SetEnable V hdl 0 st of
            Inl e \<Rightarrow> Some (Inl e)
          | Inr (ret', st5) \<Rightarrow>
              (case fnMCLS1_DLL_Close V hdl st5 of
                 Inl e \<Rightarrow> Some (Inl e)
               | Inr (ret'', st6) \<Rightarrow> Some (Inr (0 :: int32, st6))))
         = Some (Inr (0, st\<lparr>trace := trace st @ [set_event hdl (''enable=0'' @ [CR]), close_event hdl]\<rparr>))"
  unfolding SetEnable_eq Close_eq
  using assms by (simp add: called_def set_event_def close_event_def fmt_d_small)

lemma accepted_eq:
  "accepted E w x = (\<not> quit_word w \<and> stof (c_strtof E) w = Inr x \<and> length (fmt_f x) \<le> 22)"
  by (simp only: accepted_def fits_current)

lemma fmt_f_10: "fmt_f (Float 0x41200000) = ''10.000000''"
  apply (simp add: fmt_f_def is_nan_def is_inf_def f_mag_def)
  apply (simp add: round_half_even_def Let_def)
  apply (simp add: pad6_0)
  apply (simp add: dec_nat.simps digit_char_def)
  done

lemma fmt_f_2_5: "fmt_f (Float 0x40200000) = ''2.500000''"
  apply (simp add: fmt_f_def is_nan_def is_inf_def f_mag_def)
  apply (simp add: round_half_even_def Let_def)
  apply (simp add: pad6_def dec_nat.simps digit_char_def replicate_unfold)
  done

text \<open>A failed \<open>init_MCLS1\<close> ends the demo before any vendor call.\<close>

lemma init_fails:
  assumes "\<not> (\<exists>dll. L dll_path = Some dll \<and> set uart_exports \<subseteq> set dll)"
  shows "fst (init_MCLS1 L initial_state) \<noteq> 0 \<and> trace (snd (init_MCLS1 L initial_state)) = []"
  using assms
  by (auto simp: init_MCLS1_def Let_def GetProcAddress_def uart_exports_def initial_state_def
      split: option.splits)

lemma tmain_init_fails:
  assumes "\<not> (\<exists>dll. load_library E dll_path = Some dll \<and> set uart_exports \<subseteq> set dll)"
  shows "\<exists>st. tmain E argv input fuel = Some (Inr (0, st)) \<and> trace st = []"
  using init_fails [of "load_library E", OF assms]
  by (auto simp: tmain_def Let_def case_prod_beta)

section \<open>The properties\<close>

text \<open>
  C1. With the \<open>set\<close> pointer resolved: for a channel from 1 to 4,
  \<open>fnMCLS1_DLL_SetActiveChannel\<close> formats \<open>"channel=%d\r"\<close> to \<open>channel=\<close>, the one digit and a
  carriage return, calls the vendor's set function once with the command buffer holding that
  text, and returns the status of that call. Likewise \<open>fnMCLS1_DLL_SetTargeTemperature\<close> for
  a temperature that passes its assertion, \<open>fnMCLS1_DLL_SetEnable\<close> and
  \<open>fnMCLS1_DLL_SetSystemEnable\<close> for 0 and 1, and \<open>fnMCLS1_DLL_SetCurrent\<close> for every current
  whose text is shorter than the command buffer: each sends what its template expands to.
  The claim holds for \<open>fnMCLS1_DLL_SetCurrent\<close> only with that bound: a current of \<open>2 ^ 60\<close>
  expands to 35 characters, \<open>sprintf_s\<close> refuses them and nothing is sent.
\<close>

theorem setters_send_formatted_command:
  assumes "set_ptr st = Some f"
  shows
    "(1 \<le> sint n \<and> sint n \<le> 4 \<longrightarrow>
        sformat (''channel=%d'' @ [CR]) [AInt n]
          = Some (''channel='' @ [digit_char (nat (sint n))] @ [CR])
        \<and> fnMCLS1_DLL_SetActiveChannel V hdl n st
          = Inr (called V f (command hdl (''channel='' @ [digit_char (nat (sint n))] @ [CR])) st))
     \<and> (f_le TEMP_LO x \<and> f_le x TEMP_HI \<and> sformat (''target=%f'' @ [CR]) [AFloat x] = Some tx \<longrightarrow>
        fnMCLS1_DLL_SetTargeTemperature V hdl x st = Inr (called V f (command hdl tx) st))
     \<and> (sformat (''current=%f'' @ [CR]) [AFloat y] = Some ty \<and> length ty < WRITE_BUFFER_SIZE \<longrightarrow>
        fnMCLS1_DLL_SetCurrent V hdl y st = Inr (called V f (command hdl ty) st))
     \<and> (0 \<le> sint e \<and> sint e \<le> 1 \<and> sformat (''enable=%d'' @ [CR]) [AInt e] = Some te \<longrightarrow>
        fnMCLS1_DLL_SetEnable V hdl e st = Inr (called V f (command hdl te) st))
     \<and> (0 \<le> sint s \<and> sint s \<le> 1 \<and> sformat (''system=%d'' @ [CR]) [AInt s] = Some ts \<longrightarrow>
        fnMCLS1_DLL_SetSystemEnable V hdl s st = Inr (called V f (command hdl ts) st))"
  unfolding sformat_int sformat_float
  using assms temperature_fits [of x]
  by (auto simp: SetActiveChannel_eq SetTargeTemperature_eq SetCurrent_eq SetEnable_eq
      SetSystemEnable_eq sformat_int sformat_float fmt_d_digit WRITE_BUFFER_SIZE_def)

theorem setters_send_formatted_command_witness:
  "set_ptr loaded_state = Some ''fnUART_LIBRARY_Set''
   \<and> 1 \<le> sint (3 :: int32) \<and> sint (3 :: int32) \<le> 4
   \<and> fnMCLS1_DLL_SetActiveChannel example_vendor 5 3 loaded_state
       = Inr (0, loaded_state\<lparr>trace :=
           [(''fnUART_LIBRARY_Set'', SetArgs 5 (''channel=3'' @ [CR] @ replicate 22 NUL) 32)]\<rparr>)
   \<and> f_le TEMP_LO (Float 0x41C80000) \<and> f_le (Float 0x41C80000) TEMP_HI
   \<and> fnMCLS1_DLL_SetTargeTemperature example_vendor 5 (Float 0x41C80000) loaded_state
       = Inr (0, loaded_state\<lparr>trace :=
           [(''fnUART_LIBRARY_Set'', SetArgs 5 (''target=25.000000'' @ [CR] @ replicate 15 NUL) 32)]\<rparr>)
   \<and> fnMCLS1_DLL_SetCurrent example_vendor 5 (Float 0x42480000) loaded_state
       = Inr (0, loaded_state\<lparr>trace :=
           [(''fnUART_LIBRARY_Set'', SetArgs 5 (''current=50.000000'' @ [CR] @ replicate 14 NUL) 32)]\<rparr>)
   \<and> fnMCLS1_DLL_SetEnable example_vendor 5 1 loaded_state
       = Inr (0, loaded_state\<lparr>trace :=
           [(''fnUART_LIBRARY_Set'', SetArgs 5 (''enable=1'' @ [CR] @ replicate 23 NUL) 32)]\<rparr>)
   \<and> fnMCLS1_DLL_SetSystemEnable example_vendor 5 0 loaded_state
       = Inr (0, loaded_state\<lparr>trace :=
           [(''fnUART_LIBRARY_Set'', SetArgs 5 (''system=0'' @ [CR] @ replicate 23 NUL) 32)]\<rparr>)"
  using setters_send_formatted_command [of loaded_state "''fnUART_LIBRARY_Set''" 3
      example_vendor 5
      "Float 0x41C80000" "''target=25.000000'' @ [CR]" "Float 0x42480000"
      "''current=50.000000'' @ [CR]" 1 "''enable=1'' @ [CR]" 0 "''system=0'' @ [CR]"]
  unfolding sformat_int sformat_float fmt_f_25 fmt_f_50 fmt_d_small
  by (simp add: loaded_state_def called_def command_def char_array_def example_vendor_def
      digit_char_def WRITE_BUFFER_SIZE_def f_le_def is_nan_def f_key_def f_mag_def
      TEMP_LO_def TEMP_HI_def replicate_unfold)

theorem set_current_overflow_counterexample:
  "sformat (''current=%f'' @ [CR]) [AFloat (Float 0x5D800000)]
     = Some (''current=1152921504606846976.000000'' @ [CR])
   \<and> fnMCLS1_DLL_SetCurrent example_vendor 5 (Float 0x5D800000) loaded_state = Inl InvalidParameter"
  unfolding sformat_float SetCurrent_eq fmt_f_2_60 by simp

text \<open>
  C4. The ranges are assertions: \<open>fnMCLS1_DLL_SetActiveChannel\<close> is stopped by its assertion
  exactly when the channel is not from 1 to 4, \<open>fnMCLS1_DLL_SetTargeTemperature\<close> exactly
  when the temperature is a NaN or its value is below 20 or above 30 (\<open>f_key\<close> counts in
  units of \<open>2 ^ -149\<close>), \<open>fnMCLS1_DLL_SetEnable\<close> and \<open>fnMCLS1_DLL_SetSystemEnable\<close> exactly
  when the flag is neither 0 nor 1; \<open>fnMCLS1_DLL_SetCurrent\<close> never fails an assertion.
\<close>

theorem range_assertions:
  "(fnMCLS1_DLL_SetActiveChannel V hdl n st = Inl AssertionFailed) = (\<not> (1 \<le> sint n \<and> sint n \<le> 4))
   \<and> (fnMCLS1_DLL_SetTargeTemperature V hdl x st = Inl AssertionFailed)
       = (\<not> (\<not> is_nan x \<and> 20 * 2 ^ 149 \<le> f_key x \<and> f_key x \<le> 30 * 2 ^ 149))
   \<and> (fnMCLS1_DLL_SetEnable V hdl e st = Inl AssertionFailed) = (sint e \<noteq> 0 \<and> sint e \<noteq> 1)
   \<and> (fnMCLS1_DLL_SetSystemEnable V hdl s st = Inl AssertionFailed) = (sint s \<noteq> 0 \<and> sint s \<noteq> 1)
   \<and> fnMCLS1_DLL_SetCurrent V hdl y st \<noteq> Inl AssertionFailed"
  unfolding SetActiveChannel_eq SetTargeTemperature_eq SetCurrent_eq SetEnable_eq
    SetSystemEnable_eq in_range_iff
  by (auto split: option.splits)

theorem range_assertions_witness:
  "fnMCLS1_DLL_SetActiveChannel example_vendor 5 5 loaded_state = Inl AssertionFailed
   \<and> fnMCLS1_DLL_SetActiveChannel example_vendor 5 4 loaded_state \<noteq> Inl AssertionFailed
   \<and> fnMCLS1_DLL_SetTargeTemperature example_vendor 5 (Float 0x42480000) loaded_state
       = Inl AssertionFailed
   \<and> fnMCLS1_DLL_SetTargeTemperature example_vendor 5 (Float 0x7FC00000) loaded_state
       = Inl AssertionFailed
   \<and> fnMCLS1_DLL_SetTargeTemperature example_vendor 5 (Float 0x41F00000) loaded_state
       \<noteq> Inl AssertionFailed
   \<and> fnMCLS1_DLL_SetEnable example_vendor 5 2 loaded_state = Inl AssertionFailed
   \<and> fnMCLS1_DLL_SetSystemEnable example_vendor 5 (- 1) loaded_state = Inl AssertionFailed
   \<and> fnMCLS1_DLL_SetEnable example_vendor 5 1 loaded_state \<noteq> Inl AssertionFailed"
  using range_assertions [of example_vendor 5 5 loaded_state "Float 0x42480000" 2 "- 1"]
    range_assertions [of example_vendor 5 4 loaded_state "Float 0x7FC00000" 1 0]
    range_assertions [of example_vendor 5 4 loaded_state "Float 0x41F00000" 1 0]
  by (simp add: is_nan_def f_key_def f_mag_def)







text \<open>
  C2. With the \<open>get\<close> pointer resolved, every getter makes exactly one vendor call: the
  get function, with the command buffer holding the query \<open>name?\<close> and a carriage return,
  and with the response buffer. It returns the status of that call whatever the reply is.
  What it leaves in \<open>c\<close> is \<open>extracted\<close>: the value characters that follow the echoed query
  in the reply, or \<open>c\<close> as it was when the reply does not match.
\<close>

theorem getters_query_and_extract:
  assumes "get_ptr st = Some f"
  shows
    "run_getter g V hdl c limit st =
       (let a = GetArgs hdl (char_array WRITE_BUFFER_SIZE (query_name g @ ''?'' @ [CR]))
                  (replicate MAXLEN NUL);
            reply = cstr (poke (replicate MAXLEN NUL) (snd (V (trace st) (f, a))))
        in Inr (fst (V (trace st) (f, a)), extracted g reply c,
                st\<lparr>trace := trace st @ [(f, a)]\<rparr>))"
  using assms unfolding getter_eq by (simp add: called_def Let_def)

theorem getters_query_and_extract_witness:
  "get_ptr loaded_state = Some ''fnUART_LIBRARY_Get''
   \<and> fnMCLS1_DLL_GetActualCurrent example_vendor 5 ''xxxxxxxx'' 8 loaded_state
       = Inr (0xEA, ''3.25'' @ [NUL] @ ''xxx'',
              loaded_state\<lparr>trace :=
                [(''fnUART_LIBRARY_Get'',
                  GetArgs 5 (''current?'' @ [CR] @ replicate 23 NUL) (replicate 255 NUL))]\<rparr>)
   \<and> fnMCLS1_DLL_GetActualCurrent silent_vendor 5 ''xxxxxxxx'' 8 loaded_state
       = Inr (0xEB, ''xxxxxxxx'',
              loaded_state\<lparr>trace :=
                [(''fnUART_LIBRARY_Get'',
                  GetArgs 5 (''current?'' @ [CR] @ replicate 23 NUL) (replicate 255 NUL))]\<rparr>)"
  using getters_query_and_extract [of loaded_state "''fnUART_LIBRARY_Get''" ActualCurrent
      example_vendor 5 "''xxxxxxxx''" 8]
    getters_query_and_extract [of loaded_state "''fnUART_LIBRARY_Get''" ActualCurrent
      silent_vendor 5 "''xxxxxxxx''" 8]
  by (simp add: loaded_state_def example_vendor_def silent_vendor_def char_array_def
      WRITE_BUFFER_SIZE_def MAXLEN_def Let_def extracted_def cstr_def poke_def NUL_def CR_def
      isspace_def decimal_char_def is_digit_def QUOTE_def store_str_def)

text \<open>
  C8. A getter gives the same result, buffer and status and state, for every value of
  \<open>limit\<close>. With the \<open>get\<close> pointer resolved, its result is the vendor's status and what
  \<open>sscanf_s\<close> makes of \<open>c\<close>, given the response buffer, the getter's format and \<open>MAXLEN\<close>
  as the size of \<open>c\<close>. So a value of fewer than 255 characters is stored whole with its
  NUL, whatever \<open>limit\<close> is, and a longer one is refused, which leaves the empty string in
  \<open>c\<close>.
\<close>

theorem getter_limit_ignored:
  "run_getter g V hdl c limit st = run_getter g V hdl c limit' st
   \<and> (get_ptr st = Some f \<longrightarrow>
        run_getter g V hdl c limit st =
          (let a = GetArgs hdl (char_array WRITE_BUFFER_SIZE (query_name g @ ''?'' @ [CR]))
                     (replicate MAXLEN NUL);
               temp = poke (replicate MAXLEN NUL) (snd (V (trace st) (f, a)))
           in Inr (fst (V (trace st) (f, a)),
                   sscanf_s temp (query_name g @ ''?'' @ [CR] @ getter_format g) c MAXLEN,
                   st\<lparr>trace := trace st @ [(f, a)]\<rparr>)))
   \<and> (get_ptr st = Some f
        \<and> strip_prefix (query_name g @ ''?'')
             (cstr (poke (replicate MAXLEN NUL)
                (snd (V (trace st)
                  (f, GetArgs hdl (char_array WRITE_BUFFER_SIZE (query_name g @ ''?'' @ [CR]))
                        (replicate MAXLEN NUL)))))) = Some rest
        \<and> takeWhile (value_char g) (dropWhile isspace rest) = v \<and> v \<noteq> [] \<longrightarrow>
        (\<exists>r st'. run_getter g V hdl c limit st =
           Inr (r, if length v < 255 then v @ NUL # drop (length v + 1) c else NUL # drop 1 c,
                st')))"
proof (intro conjI)
  show "run_getter g V hdl c limit st = run_getter g V hdl c limit' st"
    unfolding getter_eq ..
  show "get_ptr st = Some f \<longrightarrow>
        run_getter g V hdl c limit st =
          (let a = GetArgs hdl (char_array WRITE_BUFFER_SIZE (query_name g @ ''?'' @ [CR]))
                     (replicate MAXLEN NUL);
               temp = poke (replicate MAXLEN NUL) (snd (V (trace st) (f, a)))
           in Inr (fst (V (trace st) (f, a)),
                   sscanf_s temp (query_name g @ ''?'' @ [CR] @ getter_format g) c MAXLEN,
                   st\<lparr>trace := trace st @ [(f, a)]\<rparr>))"
    by (cases g;
        simp only: run_getter.simps fnMCLS1_DLL_GetActiveChannel_def
          fnMCLS1_DLL_GetTargetTemperature_def fnMCLS1_DLL_GetActualTemperature_def
          fnMCLS1_DLL_GetActualCurrent_def fnMCLS1_DLL_GetActualPower_def
          fnMCLS1_DLL_GetSystemEnable_def fnMCLS1_DLL_GetEnable_def fnMCLS1_DLL_GetStatus_def
          fnMCLS1_DLL_GetID_def Let_def call_then;
        simp add: called_def)
  show "get_ptr st = Some f
        \<and> strip_prefix (query_name g @ ''?'')
             (cstr (poke (replicate MAXLEN NUL)
                (snd (V (trace st)
                  (f, GetArgs hdl (char_array WRITE_BUFFER_SIZE (query_name g @ ''?'' @ [CR]))
                        (replicate MAXLEN NUL)))))) = Some rest
        \<and> takeWhile (value_char g) (dropWhile isspace rest) = v \<and> v \<noteq> [] \<longrightarrow>
        (\<exists>r st'. run_getter g V hdl c limit st =
           Inr (r, if length v < 255 then v @ NUL # drop (length v + 1) c else NUL # drop 1 c,
                st'))"
    unfolding getter_eq
    by (auto simp add: Let_def extracted_def store_str_def MAXLEN_def)
qed

theorem getter_limit_ignored_witness:
  "get_ptr loaded_state = Some ''fnUART_LIBRARY_Get''
   \<and> fnMCLS1_DLL_GetActualCurrent example_vendor 5 ''xx'' 2 loaded_state
     = fnMCLS1_DLL_GetActualCurrent example_vendor 5 ''xx'' 255 loaded_state
   \<and> fnMCLS1_DLL_GetActualCurrent example_vendor 5 ''xx'' 2 loaded_state
     = Inr (0xEA, ''3.25'' @ [NUL],
            loaded_state\<lparr>trace :=
              [(''fnUART_LIBRARY_Get'',
                GetArgs 5 (''current?'' @ [CR] @ replicate 23 NUL) (replicate 255 NUL))]\<rparr>)
   \<and> fnMCLS1_DLL_GetActiveChannel flooding_vendor 5 ''xx'' 2 loaded_state
     = Inr (0, [NUL, CHR ''x''],
            loaded_state\<lparr>trace :=
              [(''fnUART_LIBRARY_Get'',
                GetArgs 5 (''channel?'' @ [CR] @ replicate 23 NUL) (replicate 255 NUL))]\<rparr>)"
  using getter_limit_ignored [of ActualCurrent example_vendor 5 "''xx''" 2 loaded_state 255
      "''fnUART_LIBRARY_Get''" "[CR] @ ''3.25'' @ [CR, CHR ''>'']" "''3.25''"]
    getter_limit_ignored [of ActiveChannel flooding_vendor 5 "''xx''" 2 loaded_state 255
      "''fnUART_LIBRARY_Get''" "[CR] @ replicate 300 (CHR ''7'')" "replicate 300 (CHR ''7'')"]
  unfolding run_getter.simps [symmetric] getter_eq
  by (simp add: loaded_state_def example_vendor_def flooding_vendor_def char_array_def
      called_def WRITE_BUFFER_SIZE_def MAXLEN_def Let_def extracted_def cstr_def poke_def
      NUL_def CR_def isspace_def decimal_char_def is_digit_def QUOTE_def store_str_def)

text \<open>
  C9. With the \<open>list\<close> pointer resolved, \<open>fnMCLS1_DLL_List\<close> calls the vendor's list function
  once with its own buffer of 255 NUL bytes and the size 255, whatever \<open>var\<close> is, and returns
  the count unchanged. Into \<open>port\<close> go the characters of the reply before the first comma,
  with a NUL; when there is none before it, \<open>port\<close> stays as it was.
\<close>

theorem list_copies_first_entry:
  assumes "list_ptr st = Some f"
  shows
    "fnMCLS1_DLL_List V port var st =
       (let a = ListArgs (replicate MAXLEN NUL) (of_nat MAXLEN);
            first = takeWhile (\<lambda>c. c \<noteq> CHR '','')
                      (cstr (poke (replicate MAXLEN NUL) (snd (V (trace st) (f, a)))))
        in Inr (fst (V (trace st) (f, a)),
                if first = [] then port else store_str port MAXLEN first,
                st\<lparr>trace := trace st @ [(f, a)]\<rparr>))"
  using assms unfolding List_eq by (simp add: called_def Let_def)

theorem list_copies_first_entry_witness:
  "list_ptr loaded_state = Some ''fnUART_LIBRARY_list''
   \<and> fnMCLS1_DLL_List example_vendor ''xxxxxxxxxx'' 4 loaded_state
       = Inr (2, ''COM3'' @ [NUL] @ ''xxxxx'',
              loaded_state\<lparr>trace := [(''fnUART_LIBRARY_list'', ListArgs (replicate 255 NUL) 255)]\<rparr>)"
  using list_copies_first_entry [of loaded_state "''fnUART_LIBRARY_list''" example_vendor
      "''xxxxxxxxxx''" 4]
  by (simp add: loaded_state_def example_vendor_def MAXLEN_def Let_def cstr_def poke_def NUL_def
      store_str_def)

text \<open>
  C7. \<open>init_MCLS1\<close> returns -1 and leaves the state as it was when the library does not
  load. When it loads, the five pointers are what \<open>GetProcAddress\<close> gives for the five
  names, and the result is 0 when all five are exported and -2 otherwise; so it is 0 exactly
  when the library loads and exports all five.
\<close>

theorem init_resolves_five_exports:
  "(L dll_path = None \<longrightarrow> init_MCLS1 L st = (- 1, st))
   \<and> (L dll_path = Some dll \<longrightarrow>
        snd (init_MCLS1 L st)
          = st\<lparr>open_ptr := GetProcAddress dll ''fnUART_LIBRARY_open'',
                list_ptr := GetProcAddress dll ''fnUART_LIBRARY_list'',
                close_ptr := GetProcAddress dll ''fnUART_LIBRARY_close'',
                set_ptr := GetProcAddress dll ''fnUART_LIBRARY_Set'',
                get_ptr := GetProcAddress dll ''fnUART_LIBRARY_Get''\<rparr>
        \<and> fst (init_MCLS1 L st) = (if set uart_exports \<subseteq> set dll then 0 else - 2))
   \<and> (fst (init_MCLS1 L st) = 0) = (\<exists>dll. L dll_path = Some dll \<and> set uart_exports \<subseteq> set dll)"
  by (auto simp: init_MCLS1_def Let_def GetProcAddress_def uart_exports_def split: option.splits)

theorem init_resolves_five_exports_witness:
  "example_loader dll_path = Some uart_exports
   \<and> init_MCLS1 example_loader initial_state = (0, loaded_state)
   \<and> init_MCLS1 (\<lambda>path. None) initial_state = (- 1, initial_state)
   \<and> fst (init_MCLS1 (\<lambda>path. Some [''fnUART_LIBRARY_open'', ''fnUART_LIBRARY_list''])
            initial_state) = - 2"
  using init_resolves_five_exports [of example_loader initial_state uart_exports]
    init_resolves_five_exports [of "\<lambda>path. None" initial_state uart_exports]
    init_resolves_five_exports [of "\<lambda>path. Some [''fnUART_LIBRARY_open'', ''fnUART_LIBRARY_list'']"
      initial_state "[''fnUART_LIBRARY_open'', ''fnUART_LIBRARY_list'']"]
  by (simp add: example_loader_def uart_exports_def initial_state_def loaded_state_def
      GetProcAddress_def prod_eq_iff)

text \<open>
  C10. With the \<open>set\<close> pointer resolved: for a current whose command fits the buffer, the
  demo's \<open>SetCurrent\<close> makes the same vendor call twice and returns the status of the second;
  for a channel from 1 to 4, \<open>SetChannel\<close> sends the channel command, drops its status, sends
  \<open>enable=1\<close> and returns the status of that. "For every current value" fails: for the
  largest finite float the first \<open>fnMCLS1_DLL_SetCurrent\<close> already ends the run.
\<close>

theorem demo_helpers_send_twice:
  assumes "set_ptr st = Some f"
  shows
    "(fits (''current=%f'' @ [CR]) [AFloat x] \<longrightarrow>
        SetCurrent V hdl x st =
          (let a = command hdl (''current='' @ fmt_f x @ [CR])
           in Inr (called V f a (snd (called V f a st)))))
     \<and> (1 \<le> sint n \<and> sint n \<le> 4 \<longrightarrow>
        SetChannel V hdl n st =
          Inr (called V f (command hdl (''enable=1'' @ [CR]))
                (snd (called V f (command hdl (''channel='' @ fmt_d n @ [CR])) st))))"
  unfolding fits_current SetCurrent_def SetChannel_def SetCurrent_eq SetActiveChannel_eq
    SetEnable_eq
  using assms by (simp add: and_then_def called_def Let_def fmt_d_small)

theorem demo_helpers_send_twice_witness:
  "set_ptr loaded_state = Some ''fnUART_LIBRARY_Set''
   \<and> fits (''current=%f'' @ [CR]) [AFloat (Float 0x42480000)]
   \<and> SetCurrent example_vendor 5 (Float 0x42480000) loaded_state
       = Inr (1, loaded_state\<lparr>trace :=
           [(''fnUART_LIBRARY_Set'', command 5 (''current=50.000000'' @ [CR])),
            (''fnUART_LIBRARY_Set'', command 5 (''current=50.000000'' @ [CR]))]\<rparr>)
   \<and> SetChannel example_vendor 5 3 loaded_state
       = Inr (1, loaded_state\<lparr>trace :=
           [(''fnUART_LIBRARY_Set'', command 5 (''channel=3'' @ [CR])),
            (''fnUART_LIBRARY_Set'', command 5 (''enable=1'' @ [CR]))]\<rparr>)"
  using demo_helpers_send_twice [of loaded_state "''fnUART_LIBRARY_Set''" "Float 0x42480000"
      example_vendor 5 3]
  unfolding fits_current fmt_f_50 fmt_d_small
  by (simp add: loaded_state_def called_def command_def example_vendor_def Let_def)

theorem demo_set_current_counterexample:
  "SetCurrent example_vendor 5 (Float 0x7F7FFFFF) loaded_state = Inl InvalidParameter"
  unfolding SetCurrent_def SetCurrent_eq fmt_f_max by (simp add: and_then_def)

text \<open>
  C6. A run of the demo; \<open>channel\<close> and \<open>current\<close> are what the arguments give (3 and 50.0
  unless there are two), \<open>hdl\<close> what the vendor's open answers for \<open>COM3\<close>, asked after the
  list call and whatever that call listed. When the library does not load with its five
  exports, the demo returns 0 without any vendor call: the port is not opened. When it
  does and \<open>hdl\<close> is negative, the demo returns 0 after the list and the open call and no
  other. When it does, \<open>hdl\<close> is not negative, the channel is from 1 to 4, the command of
  the start current fits the command buffer, and the console gives words that \<open>std::stof\<close>
  reads as currents whose commands fit and then one of \<open>quit\<close>, \<open>Quit\<close>, \<open>QUIT\<close>, the demo
  returns 0 after exactly the calls of \<open>demo_trace\<close>: list, open, channel, enable, the start
  current and each word's current twice each, disable, close; the words after the quit
  word are not read. And a run that opened the port returns only when a quit word is
  among the words. The claim's "exits exactly when the input equals quit" does not hold
  for every input: a word that \<open>std::stof\<close> rejects ends the run by an exception, with the
  channel still enabled and the port open.
\<close>

theorem demo_run:
  assumes "(if length argv \<noteq> 3 then (3, Float 0x42480000)
            else (c_atoi E (argv ! 1), c_atof E (argv ! 2))) = (channel, current)"
    and "hdl = fst (vendor_lib E [list_event] open_event)"
  shows
    "(\<not> (\<exists>dll. load_library E dll_path = Some dll \<and> set uart_exports \<subseteq> set dll) \<longrightarrow>
        (\<exists>st. tmain E argv input fuel = Some (Inr (0, st)) \<and> trace st = []))
     \<and> (load_library E dll_path = Some dll \<and> set uart_exports \<subseteq> set dll \<longrightarrow>
        (sint hdl < 0 \<longrightarrow>
           tmain E argv input fuel
             = Some (Inr (0, loaded_state\<lparr>trace := [list_event, open_event]\<rparr>)))
        \<and> (0 \<le> sint hdl \<and> 1 \<le> sint channel \<and> sint channel \<le> 4
           \<and> fits (''current=%f'' @ [CR]) [AFloat current]
           \<and> list_all2 (accepted E) pre xs \<and> quit_word q \<and> length pre + 1 < fuel \<longrightarrow>
           tmain E argv (pre @ q # rest) fuel
             = Some (Inr (0, loaded_state\<lparr>trace := demo_trace hdl channel (current # xs)\<rparr>)))
        \<and> (0 \<le> sint hdl \<and> tmain E argv input fuel = Some (Inr (r, st')) \<longrightarrow>
           list_ex quit_word input))"
proof (intro conjI impI)
  assume "\<not> (\<exists>dll. load_library E dll_path = Some dll \<and> set uart_exports \<subseteq> set dll)"
  then show "\<exists>st. tmain E argv input fuel = Some (Inr (0, st)) \<and> trace st = []"
    by (rule tmain_init_fails)
next
  assume l: "load_library E dll_path = Some dll \<and> set uart_exports \<subseteq> set dll"
  note opn = tmain_opening [OF conjunct1 [OF l] conjunct2 [OF l] assms]
  assume "sint hdl < 0"
  then show "tmain E argv input fuel
          = Some (Inr (0, loaded_state\<lparr>trace := [list_event, open_event]\<rparr>))"
    unfolding opn by (simp add: Let_def)
next
  assume l: "load_library E dll_path = Some dll \<and> set uart_exports \<subseteq> set dll"
  note opn = tmain_opening [OF conjunct1 [OF l] conjunct2 [OF l] assms]
  let ?V = "vendor_lib E"
  let ?st2 = "loaded_state\<lparr>trace := [list_event, open_event]\<rparr>"
  let ?st3 = "?st2\<lparr>trace := trace ?st2 @ [set_event hdl (''channel='' @ fmt_d channel @ [CR]),
                                          set_event hdl (''enable=1'' @ [CR])]\<rparr>"
  let ?cur = "\<lambda>x. [set_event hdl (''current='' @ fmt_f x @ [CR]),
                   set_event hdl (''current='' @ fmt_f x @ [CR])]"
  let ?st4 = "?st3\<lparr>trace := trace ?st3 @ concat (map ?cur (current # xs))\<rparr>"
  assume a: "0 \<le> sint hdl \<and> 1 \<le> sint channel \<and> sint channel \<le> 4
        \<and> fits (''current=%f'' @ [CR]) [AFloat current]
        \<and> list_all2 (accepted E) pre xs \<and> quit_word q \<and> length pre + 1 < fuel"
  have p2: "set_ptr ?st2 = Some ''fnUART_LIBRARY_Set''" by (simp add: loaded_state_def)
  have ch: "\<exists>ret. SetChannel ?V hdl channel ?st2 = Inr (ret, ?st3)"
    unfolding SetChannel_sends [OF p2, of channel ?V hdl, OF conjunct1 [OF conjunct2 [OF a]]
        conjunct1 [OF conjunct2 [OF conjunct2 [OF a]]]]
    by (simp add: set_event_def)
  then obtain ret where ch': "SetChannel ?V hdl channel ?st2 = Inr (ret, ?st3)" ..
  have p3: "set_ptr ?st3 = Some ''fnUART_LIBRARY_Set''" by (simp add: loaded_state_def)
  have nq: "\<not> quit_word []" by (simp add: quit_word_def)
  have loop: "main_loop fuel E hdl current [] (pre @ q # rest) ?st3
        = Some (Inr (last (current # xs), ?st4))"
    by (rule main_loop_runs [OF p3 _ _ nq]) (use a in simp_all)
  have nh: "(sint hdl < 0) = False" using a by simp
  have p4: "set_ptr ?st4 = Some ''fnUART_LIBRARY_Set''"
    "close_ptr ?st4 = Some ''fnUART_LIBRARY_close''"
    by (simp_all add: loaded_state_def)
  show "tmain E argv (pre @ q # rest) fuel
          = Some (Inr (0, loaded_state\<lparr>trace := demo_trace hdl channel (current # xs)\<rparr>))"
    apply (simp only: opn Let_def)
    apply (simp only: ch' loop nh if_False sum.case prod.case option.case)
    apply (simp only: tmain_closing [OF p4])
    apply (simp add: demo_trace_def)
    done
next
  assume l: "load_library E dll_path = Some dll \<and> set uart_exports \<subseteq> set dll"
  note opn = tmain_opening [OF conjunct1 [OF l] conjunct2 [OF l] assms]
  assume b: "0 \<le> sint hdl \<and> tmain E argv input fuel = Some (Inr (r, st'))"
  then obtain c st where "main_loop fuel E hdl current [] input st = Some (Inr c)"
    unfolding opn Let_def
    by (auto split: sum.splits option.splits if_splits)
  then have "quit_word [] \<or> list_ex quit_word input" by (rule main_loop_returns_at_quit)
  then show "list_ex quit_word input" by (simp add: quit_word_def)
qed

theorem demo_run_witness:
  "load_library example_env dll_path = Some uart_exports
   \<and> (5 :: int32) = fst (vendor_lib example_env [list_event] open_event)
   \<and> list_all2 (accepted example_env) [''10'', ''2.5''] [Float 0x41200000, Float 0x40200000]
   \<and> quit_word ''quit''
   \<and> tmain example_env [''demo''] [''10'', ''2.5'', ''quit'', ''10''] 4
       = Some (Inr (0, loaded_state\<lparr>trace :=
           demo_trace 5 3 [Float 0x42480000, Float 0x41200000, Float 0x40200000]\<rparr>))
   \<and> tmain (example_env\<lparr>load_library := (\<lambda>path. None)\<rparr>) [''demo''] [''quit''] 4
       = Some (Inr (0, initial_state))"
  using demo_run [of "[''demo'']" example_env 3 "Float 0x42480000" 5
      "[]" 4 uart_exports "[''10'', ''2.5'']" "[Float 0x41200000, Float 0x40200000]" "''quit''"
      "[''10'']"]
  unfolding fits_current fmt_f_50
  by (simp add: example_env_def example_loader_def example_vendor_def open_event_def
      accepted_eq fmt_f_10 fmt_f_2_5 stof_def stof_accepts_def is_digit_def isspace_def
      quit_word_def tmain_def init_MCLS1_def)

theorem demo_bad_word_counterexample:
  "\<not> quit_word ''stop''
   \<and> tmain example_env [''demo''] [''stop'', ''quit''] 3 = Some (Inl UncaughtException)"
proof -
  have o: "tmain example_env [''demo''] [''stop'', ''quit''] 3 =
      (case SetChannel example_vendor 5 3 (loaded_state\<lparr>trace := [list_event, open_event]\<rparr>) of
         Inl e \<Rightarrow> Some (Inl e)
       | Inr (ret, st3) \<Rightarrow>
           (case main_loop 3 example_env 5 (Float 0x42480000) [] [''stop'', ''quit''] st3 of
              None \<Rightarrow> None
            | Some (Inl e) \<Rightarrow> Some (Inl e)
            | Some (Inr (current', st4)) \<Rightarrow>
                (case fnMCLS1_DLL_SetEnable example_vendor 5 0 st4 of
                   Inl e \<Rightarrow> Some (Inl e)
                 | Inr (ret', st5) \<Rightarrow>
                     (case fnMCLS1_DLL_Close example_vendor 5 st5 of
                        Inl e \<Rightarrow> Some (Inl e)
                      | Inr (ret'', st6) \<Rightarrow> Some (Inr (0, st6))))))"
    by (subst tmain_opening [of example_env uart_exports "[''demo'']" 3 "Float 0x42480000" 5])
       (simp_all add: example_env_def example_loader_def example_vendor_def open_event_def Let_def)
  have p: "set_ptr (loaded_state\<lparr>trace := [list_event, open_event]\<rparr>) = Some ''fnUART_LIBRARY_Set''"
    by (simp add: loaded_state_def)
  have nq: "\<not> quit_word []" "\<not> quit_word ''stop''" by (simp_all add: quit_word_def)
  have f: "fits (''current=%f'' @ [CR]) [AFloat (Float 0x42480000)]"
    unfolding fits_current fmt_f_50 by simp
  have s: "stof (c_strtof example_env) ''stop'' = Inl UncaughtException"
    by (simp add: stof_def stof_accepts_def is_digit_def isspace_def starts_ci_def)
  have l: "main_loop 3 example_env 5 (Float 0x42480000) [] [''stop'', ''quit''] st
             = Some (Inl UncaughtException)"
    if "set_ptr st = Some ''fnUART_LIBRARY_Set''" for st
  proof -
    have "main_loop (Suc 2) example_env 5 (Float 0x42480000) [] [''stop'', ''quit''] st
        = main_loop 2 example_env 5 (Float 0x42480000) ''stop'' [''quit'']
            (st\<lparr>trace := trace st @ [set_event 5 (''current='' @ fmt_f (Float 0x42480000) @ [CR]),
                                     set_event 5 (''current='' @ fmt_f (Float 0x42480000) @ [CR])]\<rparr>)"
      by (rule main_loop_step [OF that nq(1) _ f]) simp
    moreover have "main_loop (Suc 1) example_env 5 (Float 0x42480000) ''stop'' [''quit''] st'
        = Some (Inl UncaughtException)" for st'
      unfolding main_loop_Suc using nq(2) s by simp
    ultimately show ?thesis by (simp add: numeral_3_eq_3 numeral_2_eq_2)
  qed
  show ?thesis
    unfolding o SetChannel_sends [OF p, of 3 example_vendor 5, simplified]
    by (simp add: nq l loaded_state_def)
qed

end
